theory Spec2Isabelle
  imports Complex_Main "HOL-Library.Char_ord" "HOL-Library.List_Lexorder"
begin

section \<open>Strings\<close>

text \<open>
  A JavaScript string is a sequence of UTF-16 code units. The model is \<open>string\<close>
  (\<open>char list\<close>), read as the code units below 256; the character classes of the
  regular expressions and the case mappings are those of that range.
\<close>

definition code :: "char \<Rightarrow> nat" where
  "code c = of_char c"

text \<open>\<open>\s\<close> of a regular expression, which is also what \<open>trim()\<close> removes:
  TAB, LF, VT, FF, CR, SPACE and NO-BREAK SPACE.\<close>

definition isSpace :: "char \<Rightarrow> bool" where
  "isSpace c = (code c \<in> {9, 10, 11, 12, 13, 32, 160})"

text \<open>\<open>\d\<close>: the ASCII digits.\<close>

definition isDigit :: "char \<Rightarrow> bool" where
  "isDigit c = (48 \<le> code c \<and> code c \<le> 57)"

text \<open>The class \<open>[A-Z\.]\<close> of the change detector.\<close>

definition isSymbolChar :: "char \<Rightarrow> bool" where
  "isSymbolChar c = ((65 \<le> code c \<and> code c \<le> 90) \<or> c = CHR ''.'')"

definition trim :: "string \<Rightarrow> string" where
  "trim s = rev (dropWhile isSpace (rev (dropWhile isSpace s)))"

definition startsWith :: "string \<Rightarrow> string \<Rightarrow> bool" where
  "startsWith s p = (take (length p) s = p)"

text \<open>\<open>Array.prototype.find\<close>: the first element satisfying the predicate, or undefined.\<close>

fun find_first :: "('a \<Rightarrow> bool) \<Rightarrow> 'a list \<Rightarrow> 'a option" where
  "find_first P [] = None"
| "find_first P (x # xs) = (if P x then Some x else find_first P xs)"

text \<open>\<open>[...new Set(xs)]\<close>: the elements of \<open>xs\<close> in order of first occurrence.\<close>

definition pushNew :: "'a list \<Rightarrow> 'a \<Rightarrow> 'a list" where
  "pushNew acc x = (if x \<in> set acc then acc else acc @ [x])"

definition spreadSet :: "'a list \<Rightarrow> 'a list" where
  "spreadSet xs = foldl pushNew [] xs"

section \<open>Holdings strings\<close>

text \<open>
  One attempt of \<open>/([A-Z\.]+)\s*\((\d+%)\)/\<close> at the start of \<open>s\<close>, for a symbol class
  \<open>P\<close>: the matched text and what follows it. Each of \<open>P+\<close>, \<open>\s*\<close> and \<open>\d+\<close> is greedy
  and takes the whole run; giving a character back cannot help, as the character given
  back would have to be the next literal (\<open>(\<close> after the symbol and the blanks, \<open>%\<close> after
  the digits), which no member of the run is.
\<close>

definition holdingAt :: "(char \<Rightarrow> bool) \<Rightarrow> string \<Rightarrow> (string \<times> string) option" where
  "holdingAt P s =
     (let sym = takeWhile P s; r1 = dropWhile P s;
          ws = takeWhile isSpace r1; r2 = dropWhile isSpace r1
      in if sym = [] then None
         else case r2 of
           [] \<Rightarrow> None
         | c # r3 \<Rightarrow>
             if c \<noteq> CHR ''('' then None
             else let ds = takeWhile isDigit r3; r4 = dropWhile isDigit r3
                  in if ds = [] then None
                     else (case r4 of
                       p # q # r5 \<Rightarrow>
                         if p = CHR ''%'' \<and> q = CHR '')''
                         then Some (sym @ ws @ [c] @ ds @ [p, q], r5)
                         else None
                     | _ \<Rightarrow> None))"

lemma holdingAt_shorter:
  assumes "holdingAt P s = Some (m, rest)"
  shows "length rest < length s"
proof -
  have s: "s = takeWhile P s @ takeWhile isSpace (dropWhile P s)
               @ dropWhile isSpace (dropWhile P s)"
    by simp
  from assms obtain c r3 where r2: "dropWhile isSpace (dropWhile P s) = c # r3"
    by (auto simp: holdingAt_def Let_def split: if_splits list.splits)
  from assms r2 obtain p q where r4: "dropWhile isDigit r3 = p # q # rest"
    by (auto simp: holdingAt_def Let_def split: if_splits list.splits)
  have "length rest < length (dropWhile isDigit r3)" using r4 by simp
  also have "\<dots> \<le> length r3" by (rule length_dropWhile_le)
  also have "\<dots> < length (dropWhile isSpace (dropWhile P s))" using r2 by simp
  also have "\<dots> \<le> length (dropWhile P s)" by (rule length_dropWhile_le)
  also have "\<dots> \<le> length s" by (rule length_dropWhile_le)
  finally show ?thesis .
qed

text \<open>\<open>text.match(/.../g)\<close>: all matches from left to right, the search resuming where
  the previous match ended, and moving one character on where the attempt fails.\<close>

function matchHoldings :: "(char \<Rightarrow> bool) \<Rightarrow> string \<Rightarrow> string list" where
  "matchHoldings P [] = []"
| "matchHoldings P (c # cs) =
     (case holdingAt P (c # cs) of
        Some (m, rest) \<Rightarrow> m # matchHoldings P rest
      | None \<Rightarrow> matchHoldings P cs)"
  by pat_completeness auto
termination
  by (relation "measure (\<lambda>(P, s). length s)") (auto dest: holdingAt_shorter)

text \<open>\<open>match.match(/([A-Z\.]+)/)\<close>: the first run of symbol characters, if there is one.\<close>

definition firstSymbol :: "string \<Rightarrow> string option" where
  "firstSymbol m =
     (let r = dropWhile (\<lambda>c. \<not> isSymbolChar c) m
      in if r = [] then None else Some (takeWhile isSymbolChar r))"

definition extractHoldingsFromPortfolio :: "string \<Rightarrow> string list" where
  "extractHoldingsFromPortfolio portfolioText =
     (if portfolioText = [] then []
      else map trim (matchHoldings isSymbolChar portfolioText))"

definition extractSecuritySymbols :: "string \<Rightarrow> string list" where
  "extractSecuritySymbols portfolioText =
     (if portfolioText = [] then []
      else List.map_filter firstSymbol (matchHoldings isSymbolChar portfolioText))"

text \<open>The same extraction in the combined-account service, whose class is written
  \<open>[A-Z\\.]\<close> and so also admits a backslash.\<close>

definition isSymbolCharBs :: "char \<Rightarrow> bool" where
  "isSymbolCharBs c = ((65 \<le> code c \<and> code c \<le> 90) \<or> c = CHR 0x5C \<or> c = CHR ''.'')"

definition extractHoldingsWithPercentages :: "string \<Rightarrow> string list" where
  "extractHoldingsWithPercentages portfolioText =
     (if portfolioText = [] then []
      else map trim (matchHoldings isSymbolCharBs portfolioText))"

text \<open>Tokens \<open>SYMBOL (NN%)\<close>: a symbol, one blank, an integer percentage in parentheses.\<close>

definition holdingToken :: "string \<Rightarrow> string \<Rightarrow> string" where
  "holdingToken smb ds = smb @ '' ('' @ ds @ ''%)''"

section \<open>Data model\<close>

text \<open>
  \<open>ModelData\<close> and \<open>AccountPortfolio\<close> of the portfolio assembler. Of the performance
  block only \<open>finalEquity\<close> and \<open>portfolio\<close> are read by the operations below; the
  other numeric columns are carried along unread and are left out. A calendar date
  \<open>YYYY-MM-DD\<close> is its number of days since 1970-01-01 (see the trading calendar).
\<close>

type_synonym date = int

record PerformanceData =
  finalEquity :: rat
  portfolio :: string

text \<open>A \<open>Holding\<close> as the email parser yields it, and a row of the mapping sheet. Of a
  holding the assembler reads the name, the symbol, the value (field \<open>value\<close>, here
  \<open>value'\<close>), the day's change in percent and the performance block, which only rows
  of a performance table have.\<close>

record Holding =
  name :: string
  symbol :: string
  value' :: rat
  dayChangePercent :: rat
  performance :: "PerformanceData option"

record Mapping =
  model :: string
  account :: string

record ModelData =
  name :: string
  symbol :: string
  performance :: PerformanceData

record AccountPortfolio =
  accountName :: string
  models :: "ModelData list"
  totalValue :: rat
  date :: date

record PortfolioChange =
  modelName :: string
  accountName :: string
  addedHoldings :: "string list"
  removedHoldings :: "string list"
  date :: date

section \<open>Change detector: one model\<close>

text \<open>The loop over yesterday's symbols: a symbol that is not among today's is looked
  up in yesterday's holdings by \<open>startsWith\<close>, and the holding found is pushed.\<close>

definition removedStep :: "string list \<Rightarrow> string list \<Rightarrow> string list \<Rightarrow> string \<Rightarrow> string list" where
  "removedStep todaySymbols yesterdayHoldings removed yesterdaySymbol =
     (if yesterdaySymbol \<notin> set todaySymbols
      then (case find_first (\<lambda>h. startsWith h yesterdaySymbol) yesterdayHoldings of
              Some removedHolding \<Rightarrow>
                if removedHolding \<noteq> [] then removed @ [removedHolding] else removed
            | None \<Rightarrow> removed)
      else removed)"

text \<open>The loop over today's symbols, which also skips a holding already pushed.\<close>

definition addedStep :: "string list \<Rightarrow> string list \<Rightarrow> string list \<Rightarrow> string \<Rightarrow> string list" where
  "addedStep yesterdaySymbols todayHoldings added todaySymbol =
     (if todaySymbol \<notin> set yesterdaySymbols
      then (case find_first (\<lambda>h. startsWith h todaySymbol) todayHoldings of
              Some addedHolding \<Rightarrow>
                if addedHolding \<noteq> [] \<and> addedHolding \<notin> set added
                then added @ [addedHolding] else added
            | None \<Rightarrow> added)
      else added)"

text \<open>\<open>yesterdayModel\<close> is undefined when the account or the model did not exist on
  the previous day.\<close>

definition compareModelHoldings ::
  "ModelData \<Rightarrow> ModelData option \<Rightarrow> string \<Rightarrow> date \<Rightarrow> PortfolioChange" where
  "compareModelHoldings todayModel yesterdayModel acct today =
     (let todaySymbols = extractSecuritySymbols (portfolio (performance todayModel));
          yesterdaySymbols = (case yesterdayModel of
              Some y \<Rightarrow> extractSecuritySymbols (portfolio (performance y))
            | None \<Rightarrow> []);
          todayHoldings = extractHoldingsFromPortfolio (portfolio (performance todayModel));
          yesterdayHoldings = (case yesterdayModel of
              Some y \<Rightarrow> extractHoldingsFromPortfolio (portfolio (performance y))
            | None \<Rightarrow> []);
          removed = foldl (removedStep todaySymbols yesterdayHoldings) [] yesterdaySymbols;
          added = foldl (addedStep yesterdaySymbols todayHoldings) [] todaySymbols
      in \<lparr> modelName = name todayModel,
           accountName = acct,
           addedHoldings = spreadSet added,
           removedHoldings = spreadSet removed,
           date = today \<rparr>)"

text \<open>A model with a given name and portfolio text, for the concrete cases.\<close>

definition mkModel :: "string \<Rightarrow> string \<Rightarrow> ModelData" where
  "mkModel n p = \<lparr> name = n, symbol = n, performance = \<lparr> finalEquity = 0, portfolio = p \<rparr> \<rparr>"

section \<open>Trading calendar\<close>

text \<open>
  The calendar works on date strings \<open>YYYY-MM-DD\<close>; a date string is modelled by the
  number of days from 1970-01-01 to it. A \<open>Date\<close> object is its time value, the
  milliseconds since midnight UTC of 1970-01-01. \<open>new Date(dateStr)\<close> is midnight UTC
  of the day, and \<open>toISOString().split('T')[0]\<close> is the UTC day of a time value, but
  \<open>getDay()\<close>, \<open>getDate()\<close> and \<open>setDate()\<close> work on local time, which depends on the
  time zone of the process. The limits of the \<open>Date\<close> range (100,000,000 days either
  side of 1970) are not modelled.
\<close>

text \<open>The day number of the civil date \<open>y-m-d\<close> of the proleptic Gregorian calendar.\<close>

definition isoDate :: "int \<Rightarrow> int \<Rightarrow> int \<Rightarrow> date" where
  "isoDate y m d =
     (let y' = (if m \<le> 2 then y - 1 else y);
          era = y' div 400;
          yoe = y' - era * 400;
          doy = (153 * (if m > 2 then m - 3 else m + 9) + 2) div 5 + d - 1;
          doe = yoe * 365 + yoe div 4 - yoe div 100 + doy
      in era * 146097 + doe - 719468)"

definition MARKET_HOLIDAYS :: "date list" where
  "MARKET_HOLIDAYS =
     [isoDate 2024 1 1, isoDate 2024 1 15, isoDate 2024 2 19, isoDate 2024 3 29,
      isoDate 2024 5 27, isoDate 2024 6 19, isoDate 2024 7 4, isoDate 2024 9 2,
      isoDate 2024 11 28, isoDate 2024 11 29, isoDate 2024 12 25,
      isoDate 2025 1 1, isoDate 2025 1 20, isoDate 2025 2 17, isoDate 2025 4 18,
      isoDate 2025 5 26, isoDate 2025 6 19, isoDate 2025 7 4, isoDate 2025 9 1,
      isoDate 2025 11 27, isoDate 2025 11 28, isoDate 2025 12 25]"

definition msPerDay :: int where
  "msPerDay = 86400000"

text \<open>
  A time zone: its offset from UTC in milliseconds, once as a function of the time
  value and once as a function of the local time (the two differ around a change of
  the offset). A zone with daylight saving time has offsets that change with the moment;
  a fixed zone has one offset.
\<close>

record zone =
  offsetAt :: "int \<Rightarrow> int"
  offsetOfLocal :: "int \<Rightarrow> int"

definition fixedZone :: "int \<Rightarrow> zone" where
  "fixedZone off = \<lparr> offsetAt = (\<lambda>t. off), offsetOfLocal = (\<lambda>t. off) \<rparr>"

definition utc :: zone where
  "utc = fixedZone 0"

text \<open>Five hours west of UTC: the winter offset of \<open>America/Toronto\<close> and
  \<open>America/New_York\<close>.\<close>

definition utcMinus5 :: zone where
  "utcMinus5 = fixedZone (- (5 * 3600000))"

text \<open>\<open>new Date(dateStr)\<close> and \<open>toISOString().split('T')[0]\<close>.\<close>

definition newDate :: "date \<Rightarrow> int" where
  "newDate dateStr = dateStr * msPerDay"

definition toISODate :: "int \<Rightarrow> date" where
  "toISODate t = t div msPerDay"

definition localTime :: "zone \<Rightarrow> int \<Rightarrow> int" where
  "localTime z t = t + offsetAt z t"

text \<open>\<open>getDay()\<close>: the day of the week of the local day, 0 for Sunday and 6 for
  Saturday; 1970-01-01 was a Thursday.\<close>

definition getDay :: "zone \<Rightarrow> int \<Rightarrow> int" where
  "getDay z t = (localTime z t div msPerDay + 4) mod 7"

text \<open>\<open>setDate(getDate() + k)\<close>: the local time moves by \<open>k\<close> days, keeping the time
  of day, and is read back as a time value with the offset in force at that local
  time.\<close>

definition addDays :: "zone \<Rightarrow> int \<Rightarrow> int \<Rightarrow> int" where
  "addDays z t k = (let local = localTime z t + k * msPerDay in local - offsetOfLocal z local)"

definition isTradingDay :: "zone \<Rightarrow> date \<Rightarrow> bool" where
  "isTradingDay z dateStr =
     (let date = newDate dateStr;
          dayOfWeek = getDay z date
      in if dayOfWeek = 0 \<or> dayOfWeek = 6 then False
         else if dateStr \<in> set MARKET_HOLIDAYS then False
         else True)"

text \<open>The two \<open>do ... while (true)\<close> loops: move the \<open>Date\<close> by one local day, print
  it, return the date printed if it is a trading day, otherwise go round again. A loop
  that never returns has the value \<open>None\<close>.\<close>

partial_function (option) previousLoop :: "zone \<Rightarrow> int \<Rightarrow> date option" where
  "previousLoop z currentDate =
     (if isTradingDay z (toISODate (addDays z currentDate (- 1)))
      then Some (toISODate (addDays z currentDate (- 1)))
      else previousLoop z (addDays z currentDate (- 1)))"

partial_function (option) nextLoop :: "zone \<Rightarrow> int \<Rightarrow> date option" where
  "nextLoop z currentDate =
     (if isTradingDay z (toISODate (addDays z currentDate 1))
      then Some (toISODate (addDays z currentDate 1))
      else nextLoop z (addDays z currentDate 1))"

declare previousLoop.simps [code]
declare nextLoop.simps [code]

definition getPreviousTradingDay :: "zone \<Rightarrow> date \<Rightarrow> date option" where
  "getPreviousTradingDay z dateStr = previousLoop z (newDate dateStr)"

definition getNextTradingDay :: "zone \<Rightarrow> date \<Rightarrow> date option" where
  "getNextTradingDay z dateStr = nextLoop z (newDate dateStr)"

text \<open>The calendar itself: the day of the week of a date, Monday to Friday, and the
  days on which the market is open.\<close>

definition civilDayOfWeek :: "date \<Rightarrow> int" where
  "civilDayOfWeek d = (d + 4) mod 7"

definition weekday :: "date \<Rightarrow> bool" where
  "weekday d = (civilDayOfWeek d \<noteq> 0 \<and> civilDayOfWeek d \<noteq> 6)"

definition marketOpen :: "date \<Rightarrow> bool" where
  "marketOpen d = (weekday d \<and> d \<notin> set MARKET_HOLIDAYS)"

text \<open>\<open>calculateDaysDifference\<close>: the time between two midnights, rounded up to days.\<close>

definition calculateDaysDifference :: "date \<Rightarrow> date \<Rightarrow> nat" where
  "calculateDaysDifference startDate endDate =
     (let diffTime = \<bar>newDate endDate - newDate startDate\<bar>
      in nat (- ((- diffTime) div msPerDay)))"

text \<open>A number in a template string.\<close>

fun showNat :: "nat \<Rightarrow> string" where
  "showNat n =
     (if n < 10 then [''0123456789'' ! n]
      else showNat (n div 10) @ [''0123456789'' ! (n mod 10)])"

declare showNat.simps [simp del]

definition getNoChangeReason :: "zone \<Rightarrow> date \<Rightarrow> string option" where
  "getNoChangeReason z dateStr =
     (if \<not> isTradingDay z dateStr
      then (let dayOfWeek = getDay z (newDate dateStr)
            in if dayOfWeek = 0 \<or> dayOfWeek = 6
               then Some ''Markets closed - Weekend''
               else Some ''Markets closed - Holiday'')
      else (case getPreviousTradingDay z dateStr of
              None \<Rightarrow> None
            | Some previousTradingDay \<Rightarrow>
                (let daysDiff = calculateDaysDifference previousTradingDay dateStr
                 in if daysDiff > 3
                    then Some (''Markets closed - '' @ showNat daysDiff
                               @ '' day gap since last trading day'')
                    else Some ''First trading day comparison'')))"

text \<open>The date string of a day number, as \<open>toISOString().split('T')[0]\<close> prints it:
  four digits for the years 0 to 9999, a sign and six digits otherwise.\<close>

definition padNat :: "nat \<Rightarrow> nat \<Rightarrow> string" where
  "padNat w n = replicate (w - length (showNat n)) CHR ''0'' @ showNat n"

definition showDate :: "date \<Rightarrow> string" where
  "showDate z0 =
     (let z = z0 + 719468;
          era = z div 146097;
          doe = z - era * 146097;
          yoe = (doe - doe div 1460 + doe div 36524 - doe div 146096) div 365;
          doy = doe - (365 * yoe + yoe div 4 - yoe div 100);
          mp = (5 * doy + 2) div 153;
          d = doy - (153 * mp + 2) div 5 + 1;
          m = (if mp < 10 then mp + 3 else mp - 9);
          y = yoe + era * 400 + (if m \<le> 2 then 1 else 0);
          year = (if 0 \<le> y \<and> y \<le> 9999 then padNat 4 (nat y)
                  else (if y < 0 then ''-'' else ''+'') @ padNat 6 (nat \<bar>y\<bar>))
      in year @ ''-'' @ padNat 2 (nat m) @ ''-'' @ padNat 2 (nat d))"

section \<open>Sorting\<close>

text \<open>
  \<open>Array.prototype.sort\<close> is a stable sort. For a comparator that is a total preorder
  its result is the one stable arrangement in that order, which insertion from the
  right produces; the order of the result for an inconsistent comparator is left open
  by the language and is not modelled.
\<close>

fun insertBy :: "('a \<Rightarrow> 'a \<Rightarrow> int) \<Rightarrow> 'a \<Rightarrow> 'a list \<Rightarrow> 'a list" where
  "insertBy cmp x [] = [x]"
| "insertBy cmp x (y # ys) =
     (if cmp x y \<le> 0 then x # y # ys else y # insertBy cmp x ys)"

definition sortBy :: "('a \<Rightarrow> 'a \<Rightarrow> int) \<Rightarrow> 'a list \<Rightarrow> 'a list" where
  "sortBy cmp xs = foldr (insertBy cmp) xs []"

text \<open>\<open>sort()\<close> without a comparator orders strings by their code units.\<close>

definition compareCodeUnits :: "string \<Rightarrow> string \<Rightarrow> int" where
  "compareCodeUnits a b = (if a < b then - 1 else if a = b then 0 else 1)"

text \<open>
  \<open>String.prototype.localeCompare\<close> is the collation of the host's locale. The
  operations that sort with it take it as their parameter \<open>localeCompare\<close>.
\<close>

text \<open>
  For the concrete cases, the collation of the root and English locales on ASCII
  strings. Blanks, punctuation, symbols, the dollar sign and the digits are ranked in
  \<open>collationOrder\<close>, below the letters; the letters are ranked alphabetically with
  both cases of a letter together; control characters are ignored. Two strings are
  compared by the ranks of their characters, and strings that agree there by case,
  position by position, lower case first. Code units from 128 are outside this model
  and are ignored by it.
\<close>

definition collationOrder :: "nat list" where
  "collationOrder =
     [9, 10, 11, 12, 13, 32,
      95, 45, 44, 59, 58, 33, 63, 46, 39, 34, 40, 41, 91, 93, 123, 125, 64, 42, 47, 92,
      38, 35, 37,
      96, 94, 43, 60, 61, 62, 124, 126,
      36,
      48, 49, 50, 51, 52, 53, 54, 55, 56, 57]"

fun indexOf :: "nat \<Rightarrow> nat list \<Rightarrow> nat option" where
  "indexOf n [] = None"
| "indexOf n (x # xs) =
     (if n = x then Some 0 else (case indexOf n xs of None \<Rightarrow> None | Some i \<Rightarrow> Some (Suc i)))"

definition primaryWeight :: "char \<Rightarrow> nat option" where
  "primaryWeight c =
     (let n = code c
      in if 97 \<le> n \<and> n \<le> 122 then Some (100 + (n - 97))
         else if 65 \<le> n \<and> n \<le> 90 then Some (100 + (n - 65))
         else indexOf n collationOrder)"

definition caseWeight :: "char \<Rightarrow> nat" where
  "caseWeight c = (if 65 \<le> code c \<and> code c \<le> 90 then 1 else 0)"

fun compareWeights :: "nat list \<Rightarrow> nat list \<Rightarrow> int" where
  "compareWeights [] [] = 0"
| "compareWeights [] (y # ys) = - 1"
| "compareWeights (x # xs) [] = 1"
| "compareWeights (x # xs) (y # ys) =
     (if x < y then - 1 else if y < x then 1 else compareWeights xs ys)"

definition rootCollation :: "string \<Rightarrow> string \<Rightarrow> int" where
  "rootCollation a b =
     (let a' = filter (\<lambda>c. primaryWeight c \<noteq> None) a;
          b' = filter (\<lambda>c. primaryWeight c \<noteq> None) b;
          r = compareWeights (map (the \<circ> primaryWeight) a') (map (the \<circ> primaryWeight) b')
      in if r \<noteq> 0 then r
         else compareWeights (map caseWeight a') (map caseWeight b'))"

section \<open>Change detector: one day\<close>

text \<open>The alert of an older copy of the service, kept under \<open>src/lib\<close> (see below).\<close>

record ChangeAlertOld =
  changes :: "PortfolioChange list"
  totalChanges :: nat
  affectedAccounts :: "string list"
  date :: date

record ChangeAlert =
  hasChanges :: bool
  changes :: "PortfolioChange list"
  totalChanges :: nat
  affectedAccounts :: "string list"
  date :: date
  comparisonDate :: "date option"
  message :: string

text \<open>What a service call throws.\<close>

datatype error = Thrown string

text \<open>The state of the comparison loops: the changes and the affected accounts so far.\<close>

type_synonym detection = "PortfolioChange list \<times> string list"

definition noteAccount :: "string \<Rightarrow> string list \<Rightarrow> string list" where
  "noteAccount acct affected = (if acct \<in> set affected then affected else affected @ [acct])"

text \<open>One model of today's account, compared with the model of the same name in the
  previous day's account.\<close>

definition modelStep ::
  "date \<Rightarrow> AccountPortfolio \<Rightarrow> AccountPortfolio option \<Rightarrow> detection \<Rightarrow> ModelData \<Rightarrow> detection" where
  "modelStep today todayAccount previousAccount st todayModel =
     (let previousModel = (case previousAccount of
              None \<Rightarrow> None
            | Some pa \<Rightarrow> find_first (\<lambda>ym. name ym = name todayModel) (models pa));
          modelChanges = compareModelHoldings todayModel previousModel
              (AccountPortfolio.accountName todayAccount) today
      in if length (addedHoldings modelChanges) > 0 \<or> length (removedHoldings modelChanges) > 0
         then (fst st @ [modelChanges],
               noteAccount (AccountPortfolio.accountName todayAccount) (snd st))
         else st)"

text \<open>One model of the previous day's account: reported as removed when today's
  account has no model of that name.\<close>

definition removedModelStep ::
  "date \<Rightarrow> AccountPortfolio \<Rightarrow> detection \<Rightarrow> ModelData \<Rightarrow> detection" where
  "removedModelStep today todayAccount st previousModel =
     (case find_first (\<lambda>tm. name tm = name previousModel) (models todayAccount) of
        Some todayModelExists \<Rightarrow> st
      | None \<Rightarrow>
          (let allPreviousHoldings =
                 extractHoldingsFromPortfolio (portfolio (performance previousModel))
           in (fst st @ [\<lparr> modelName = name previousModel,
                            accountName = AccountPortfolio.accountName todayAccount,
                            addedHoldings = [],
                            removedHoldings = allPreviousHoldings,
                            date = today \<rparr>],
               noteAccount (AccountPortfolio.accountName todayAccount) (snd st))))"

definition accountStep ::
  "date \<Rightarrow> AccountPortfolio list \<Rightarrow> detection \<Rightarrow> AccountPortfolio \<Rightarrow> detection" where
  "accountStep today previousPortfolios st todayAccount =
     (let previousAccount = find_first
              (\<lambda>ya. AccountPortfolio.accountName ya = AccountPortfolio.accountName todayAccount)
              previousPortfolios;
          st1 = foldl (modelStep today todayAccount previousAccount) st (models todayAccount)
      in case previousAccount of
           None \<Rightarrow> st1
         | Some pa \<Rightarrow> foldl (removedModelStep today todayAccount) st1 (models pa))"

text \<open>The comparator of \<open>changes.sort\<close>: by account name, then by model name.\<close>

definition changeOrder ::
  "(string \<Rightarrow> string \<Rightarrow> int) \<Rightarrow> PortfolioChange \<Rightarrow> PortfolioChange \<Rightarrow> int" where
  "changeOrder localeCompare a b =
     (if accountName a \<noteq> accountName b then localeCompare (accountName a) (accountName b)
      else localeCompare (modelName a) (modelName b))"

text \<open>The part of \<open>detectChanges\<close> after the two portfolios have arrived.\<close>

definition compareDays ::
  "(string \<Rightarrow> string \<Rightarrow> int) \<Rightarrow> date \<Rightarrow> date \<Rightarrow> AccountPortfolio list \<Rightarrow> AccountPortfolio list
   \<Rightarrow> ChangeAlert" where
  "compareDays localeCompare today previousTradingDay todayPortfolios previousPortfolios =
     (let st = foldl (accountStep today previousPortfolios) ([], []) todayPortfolios;
          changes = sortBy (changeOrder localeCompare) (fst st);
          affectedAccounts = snd st
      in \<lparr> hasChanges = length changes > 0,
           changes = changes,
           totalChanges = length changes,
           affectedAccounts = sortBy compareCodeUnits affectedAccounts,
           date = today,
           comparisonDate = Some previousTradingDay,
           message =
             (if length changes > 0
              then ''Found '' @ showNat (length changes)
                   @ '' changes compared to previous trading day (''
                   @ showDate previousTradingDay @ '')''
              else ''No changes detected compared to previous trading day (''
                   @ showDate previousTradingDay @ '')'') \<rparr>)"

text \<open>
  \<open>detectChanges\<close>, in a process of time zone \<open>z\<close>. The account service is the
  parameter \<open>fetch\<close>, and the result carries the dates it was asked for, in order;
  \<open>now\<close> is the current date, used when no date is given. The two requests are
  started together and either failure fails the whole call. The value is \<open>None\<close> if a
  calendar loop does not return.
\<close>

definition detectChanges ::
  "zone \<Rightarrow> (string \<Rightarrow> string \<Rightarrow> int) \<Rightarrow> (date \<Rightarrow> error + AccountPortfolio list) \<Rightarrow> date
   \<Rightarrow> date option \<Rightarrow> ((error + ChangeAlert) \<times> date list) option" where
  "detectChanges z localeCompare fetch now todayDate =
     (let today = (case todayDate of Some d \<Rightarrow> d | None \<Rightarrow> now)
      in if \<not> isTradingDay z today
         then (case getNoChangeReason z today of
                 None \<Rightarrow> None
               | Some reason \<Rightarrow>
                   Some (Inr \<lparr> hasChanges = False,
                               changes = [],
                               totalChanges = 0,
                               affectedAccounts = [],
                               date = today,
                               comparisonDate = None,
                               message = reason \<rparr>, []))
         else (case getPreviousTradingDay z today of
                 None \<Rightarrow> None
               | Some previousTradingDay \<Rightarrow>
                   (case fetch today of
                      Inl e \<Rightarrow> Some (Inl e, [today, previousTradingDay])
                    | Inr todayPortfolios \<Rightarrow>
                        (case fetch previousTradingDay of
                           Inl e \<Rightarrow> Some (Inl e, [today, previousTradingDay])
                         | Inr previousPortfolios \<Rightarrow>
                             Some (Inr (compareDays localeCompare today previousTradingDay
                                          todayPortfolios previousPortfolios),
                                   [today, previousTradingDay])))))"

text \<open>
  The repository also keeps an older copy of the service,
  \<open>src/lib/changeDetectionService.ts\<close>, which has no calendar: it compares the day with
  the day that \<open>setDate(getDate() - 1)\<close> gives, whatever the two days are, and its alert
  has neither \<open>hasChanges\<close> nor a comparison date nor a message. The comparison itself
  is the same.
\<close>

definition getYesterdayDate :: "zone \<Rightarrow> date \<Rightarrow> date" where
  "getYesterdayDate z todayDate = toISODate (addDays z (newDate todayDate) (- 1))"

definition detectChangesOld ::
  "zone \<Rightarrow> (string \<Rightarrow> string \<Rightarrow> int) \<Rightarrow> (date \<Rightarrow> error + AccountPortfolio list) \<Rightarrow> date
   \<Rightarrow> date option \<Rightarrow> (error + ChangeAlertOld) \<times> date list" where
  "detectChangesOld z localeCompare fetch now todayDate =
     (let today = (case todayDate of Some d \<Rightarrow> d | None \<Rightarrow> now);
          yesterday = getYesterdayDate z today
      in case fetch today of
           Inl e \<Rightarrow> (Inl e, [today, yesterday])
         | Inr todayPortfolios \<Rightarrow>
             (case fetch yesterday of
                Inl e \<Rightarrow> (Inl e, [today, yesterday])
              | Inr yesterdayPortfolios \<Rightarrow>
                  (let st = foldl (accountStep today yesterdayPortfolios) ([], []) todayPortfolios;
                       found = sortBy (changeOrder localeCompare) (fst st)
                   in (Inr \<lparr> ChangeAlertOld.changes = found,
                              ChangeAlertOld.totalChanges = length found,
                              ChangeAlertOld.affectedAccounts = sortBy compareCodeUnits (snd st),
                              ChangeAlertOld.date = today \<rparr>,
                       [today, yesterday]))))"

text \<open>An account with given models, and an account service that answers from a table
  of days, for the concrete cases.\<close>

definition mkAccount :: "string \<Rightarrow> date \<Rightarrow> ModelData list \<Rightarrow> AccountPortfolio" where
  "mkAccount n d ms =
     \<lparr> AccountPortfolio.accountName = n, models = ms,
       totalValue = sum_list (map (\<lambda>m. finalEquity (performance m)) ms),
       AccountPortfolio.date = d \<rparr>"

definition fetchFrom :: "(date \<times> AccountPortfolio list) list \<Rightarrow> date \<Rightarrow> error + AccountPortfolio list" where
  "fetchFrom table d = (case map_of table d of Some ps \<Rightarrow> Inr ps | None \<Rightarrow> Inr [])"

text \<open>A change that reports a whole model as removed: the model is in the previous
  day's account of the same name and not in today's, nothing is added, and the removed
  holdings are those extracted from the model's previous portfolio text.\<close>

definition removedModelReport ::
  "date \<Rightarrow> AccountPortfolio list \<Rightarrow> AccountPortfolio list \<Rightarrow> PortfolioChange \<Rightarrow> bool" where
  "removedModelReport today todayPortfolios previousPortfolios c =
     (\<exists>ta \<in> set todayPortfolios. \<exists>pa \<in> set previousPortfolios. \<exists>pm \<in> set (models pa).
        AccountPortfolio.accountName pa = AccountPortfolio.accountName ta
      \<and> (\<forall>tm \<in> set (models ta). name tm \<noteq> name pm)
      \<and> c = \<lparr> modelName = name pm,
               accountName = AccountPortfolio.accountName ta,
               addedHoldings = [],
               removedHoldings = extractHoldingsFromPortfolio (portfolio (performance pm)),
               date = today \<rparr>)"

text \<open>The shape of a change in an alert.\<close>

definition changeShape ::
  "date \<Rightarrow> AccountPortfolio list \<Rightarrow> AccountPortfolio list \<Rightarrow> PortfolioChange \<Rightarrow> bool" where
  "changeShape today todayPortfolios previousPortfolios c =
     (addedHoldings c \<noteq> [] \<or> removedHoldings c \<noteq> []
      \<or> removedModelReport today todayPortfolios previousPortfolios c)"

text \<open>Two days of one account, Wednesday 27 November and Monday 2 December 2024: the
  model \<open>M2\<close>, whose portfolio text is empty, is gone on the second day.\<close>

definition emptyModelGone :: "(date \<times> AccountPortfolio list) list" where
  "emptyModelGone =
     [(isoDate 2024 12 2,
         [mkAccount ''Glen RRSP $USD'' (isoDate 2024 12 2) [mkModel ''M1'' ''NVDA (10%)'']]),
      (isoDate 2024 11 27,
         [mkAccount ''Glen RRSP $USD'' (isoDate 2024 11 27)
            [mkModel ''M1'' ''NVDA (10%)'', mkModel ''M2'' '''']])]"

section \<open>Model names\<close>

text \<open>\<open>toLowerCase\<close> and \<open>toUpperCase\<close> on code units below 256: the ASCII letters, and
  for \<open>toLowerCase\<close> the capital letters of Latin-1. (\<open>toUpperCase\<close> is applied to a
  matched currency code only, which is ASCII.)\<close>

definition toLowerChar :: "char \<Rightarrow> char" where
  "toLowerChar c =
     (let n = code c
      in if (65 \<le> n \<and> n \<le> 90) \<or> (192 \<le> n \<and> n \<le> 222 \<and> n \<noteq> 215)
         then char_of (n + 32) else c)"

definition toUpperChar :: "char \<Rightarrow> char" where
  "toUpperChar c = (let n = code c in if 97 \<le> n \<and> n \<le> 122 then char_of (n - 32) else c)"

definition toLowerCase :: "string \<Rightarrow> string" where
  "toLowerCase s = map toLowerChar s"

definition toUpperCase :: "string \<Rightarrow> string" where
  "toUpperCase s = map toUpperChar s"

text \<open>\<open>s.includes(t)\<close>: \<open>t\<close> occurs in \<open>s\<close> at some position.\<close>

fun includesStr :: "string \<Rightarrow> string \<Rightarrow> bool" where
  "includesStr [] t = (t = [])"
| "includesStr (c # cs) t = (startsWith (c # cs) t \<or> includesStr cs t)"

text \<open>\<open>replace(/^\d+\.\s*/, '')\<close>: a leading run of digits followed by a dot is removed
  together with the blanks after the dot.\<close>

definition stripNumberPrefix :: "string \<Rightarrow> string" where
  "stripNumberPrefix s =
     (let ds = takeWhile isDigit s; r = dropWhile isDigit s
      in if ds = [] then s
         else (case r of
                 [] \<Rightarrow> s
               | c # r' \<Rightarrow> if c = CHR ''.'' then dropWhile isSpace r' else s))"

text \<open>The three matchers, in the order of their tests.\<close>

definition EmailParser_modelsMatch :: "string \<Rightarrow> string \<Rightarrow> bool" where
  "EmailParser_modelsMatch emailModel sheetModel =
     (if emailModel = [] \<or> sheetModel = [] then False
      else if toLowerCase emailModel = toLowerCase sheetModel then True
      else if includesStr (toLowerCase emailModel) (toLowerCase sheetModel)
              \<or> includesStr (toLowerCase sheetModel) (toLowerCase emailModel) then True
      else (let cleanEmailModel = trim (stripNumberPrefix emailModel);
                cleanSheetModel = trim (stripNumberPrefix sheetModel)
            in if toLowerCase cleanEmailModel = toLowerCase cleanSheetModel then True
               else False))"

definition AccountPortfolioService_modelsMatch :: "string \<Rightarrow> string \<Rightarrow> bool" where
  "AccountPortfolioService_modelsMatch emailModel sheetModel =
     (if emailModel = [] \<or> sheetModel = [] then False
      else if toLowerCase emailModel = toLowerCase sheetModel then True
      else if includesStr (toLowerCase emailModel) (toLowerCase sheetModel)
              \<or> includesStr (toLowerCase sheetModel) (toLowerCase emailModel) then True
      else (let cleanEmailModel = trim (stripNumberPrefix emailModel);
                cleanSheetModel = trim (stripNumberPrefix sheetModel)
            in if toLowerCase cleanEmailModel = toLowerCase cleanSheetModel then True
               else False))"

definition ModelWatchListService_modelsMatch :: "string \<Rightarrow> string \<Rightarrow> bool" where
  "ModelWatchListService_modelsMatch modelName1 modelName2 =
     (if modelName1 = [] \<or> modelName2 = [] then False
      else if toLowerCase modelName1 = toLowerCase modelName2 then True
      else (let clean1 = trim (stripNumberPrefix modelName1);
                clean2 = trim (stripNumberPrefix modelName2)
            in if toLowerCase clean1 = toLowerCase clean2 then True
               else if includesStr (toLowerCase clean1) (toLowerCase clean2)
                       \<or> includesStr (toLowerCase clean2) (toLowerCase clean1) then True
               else False))"

section \<open>Account names\<close>

text \<open>\<open>(?:USD|CAD)\<close> under the flag \<open>i\<close>: one of the two codes, each letter in either
  case.\<close>

definition isCurrencyCode :: "string \<Rightarrow> bool" where
  "isCurrencyCode cur = (toUpperCase cur = ''USD'' \<or> toUpperCase cur = ''CAD'')"

text \<open>\<open>/\$(?:USD|CAD)$/i\<close> tried at the start of \<open>t\<close>: a dollar sign and a currency
  code, and then the end of the string.\<close>

definition currencyTail :: "string \<Rightarrow> bool" where
  "currencyTail t = (case t of [] \<Rightarrow> False | d # cur \<Rightarrow> d = CHR ''$'' \<and> isCurrencyCode cur)"

text \<open>\<open>/\s+\$(?:USD|CAD)$/i\<close> tried at the start of \<open>t\<close>. The greedy \<open>\s+\<close> takes the
  whole run of blanks, and must, as the next character has to be the dollar sign.\<close>

definition suffixAt :: "string \<Rightarrow> bool" where
  "suffixAt t = (takeWhile isSpace t \<noteq> [] \<and> currencyTail (dropWhile isSpace t))"

text \<open>\<open>replace(/\s+\$(?:USD|CAD)$/i, '')\<close>: the leftmost match, which runs to the end of
  the name, is removed.\<close>

fun extractBaseAccountName :: "string \<Rightarrow> string" where
  "extractBaseAccountName [] = []"
| "extractBaseAccountName (c # cs) =
     (if suffixAt (c # cs) then [] else c # extractBaseAccountName cs)"

text \<open>\<open>match(/\$(?:USD|CAD)$/i)\<close>: the leftmost match, or null.\<close>

fun currencyMatch :: "string \<Rightarrow> string option" where
  "currencyMatch [] = None"
| "currencyMatch (c # cs) =
     (if currencyTail (c # cs) then Some (c # cs) else currencyMatch cs)"

definition extractCurrency :: "string \<Rightarrow> string" where
  "extractCurrency fullAccountName =
     (case currencyMatch fullAccountName of
        Some m \<Rightarrow> toUpperCase (drop 1 m)
      | None \<Rightarrow> ''USD'')"

section \<open>Portfolio assembler\<close>

text \<open>
  \<open>getAccountPortfolios\<close> after its three service calls: \<open>mappings\<close> are the rows of
  the sheet and \<open>emails\<close> holds, for each email of the day, the holdings the parser
  found in it; \<open>localeCompare\<close> is the collation.

  \<open>accountGroups\<close> is an object used as a dictionary from account names to arrays.
  A name that \<open>Object.prototype\<close> defines is found, although never stored, and the
  \<open>push\<close> on what is found throws. The accounts are listed in the order in which they
  were first stored; that \<open>Object.entries\<close> lists names that are array indices
  first has no bearing on the order after sorting.
\<close>

definition objectPrototypeNames :: "string list" where
  "objectPrototypeNames =
     [''constructor'', ''__defineGetter__'', ''__defineSetter__'', ''hasOwnProperty'',
      ''__lookupGetter__'', ''__lookupSetter__'', ''isPrototypeOf'',
      ''propertyIsEnumerable'', ''toString'', ''valueOf'', ''__proto__'',
      ''toLocaleString'']"

type_synonym accountGroups = "(string \<times> ModelData list) list"

definition toModelData :: "Holding \<Rightarrow> ModelData" where
  "toModelData holding =
     \<lparr> name = Holding.name holding,
       symbol = Holding.symbol holding,
       performance = (case Holding.performance holding of
           Some p \<Rightarrow> p
         | None \<Rightarrow> \<lparr> finalEquity = value' holding, portfolio = [] \<rparr>) \<rparr>"

fun pushModel :: "string \<Rightarrow> ModelData \<Rightarrow> accountGroups \<Rightarrow> accountGroups" where
  "pushModel acct modelData [] = [(acct, [modelData])]"
| "pushModel acct modelData ((k, ms) # groups) =
     (if k = acct then (k, ms @ [modelData]) # groups
      else (k, ms) # pushModel acct modelData groups)"

definition mappingStep :: "Holding \<Rightarrow> error + accountGroups \<Rightarrow> Mapping \<Rightarrow> error + accountGroups" where
  "mappingStep holding st mapping =
     (case st of
        Inl e \<Rightarrow> Inl e
      | Inr groups \<Rightarrow>
          if account mapping \<in> set objectPrototypeNames then Inl (Thrown ''TypeError'')
          else Inr (pushModel (account mapping) (toModelData holding) groups))"

definition holdingStep :: "Mapping list \<Rightarrow> error + accountGroups \<Rightarrow> Holding \<Rightarrow> error + accountGroups" where
  "holdingStep mappings st holding =
     (let matchingMappings =
            filter (\<lambda>m. AccountPortfolioService_modelsMatch (Holding.name holding) (model m))
              mappings
      in if length matchingMappings > 0 then foldl (mappingStep holding) st matchingMappings
         else st)"

definition getAccountPortfolios ::
  "(string \<Rightarrow> string \<Rightarrow> int) \<Rightarrow> date \<Rightarrow> Mapping list \<Rightarrow> Holding list list
   \<Rightarrow> error + AccountPortfolio list" where
  "getAccountPortfolios localeCompare day mappings emails =
     (if length emails = 0 then Inr []
      else (let allPortfolioData = concat emails
            in case foldl (holdingStep mappings) (Inr []) allPortfolioData of
                 Inl e \<Rightarrow> Inl e
               | Inr accountGroups \<Rightarrow>
                   (let accountPortfolios =
                          map (\<lambda>(acct, ms).
                                 \<lparr> AccountPortfolio.accountName = acct,
                                   models = ms,
                                   totalValue =
                                     foldl (\<lambda>sum m. sum + finalEquity (performance m)) 0 ms,
                                   AccountPortfolio.date = day \<rparr>)
                              accountGroups
                    in Inr (sortBy (\<lambda>a b. localeCompare (AccountPortfolio.accountName a)
                                                (AccountPortfolio.accountName b))
                              accountPortfolios))))"

text \<open>Sorted by a comparator: every element is at most its successor.\<close>

fun sortedBy :: "('a \<Rightarrow> 'a \<Rightarrow> int) \<Rightarrow> 'a list \<Rightarrow> bool" where
  "sortedBy cmp [] = True"
| "sortedBy cmp [x] = True"
| "sortedBy cmp (x # y # zs) = (cmp x y \<le> 0 \<and> sortedBy cmp (y # zs))"

text \<open>A sheet with two accounts and an email with a holdings row for each model.\<close>

definition twoAccountSheet :: "Mapping list" where
  "twoAccountSheet =
     [\<lparr> model = ''Glen S&P 100'', account = ''Glen RRSP'' \<rparr>,
      \<lparr> model = ''Anne Growth'', account = ''anne TFSA'' \<rparr>]"

definition twoModelEmail :: "Holding list" where
  "twoModelEmail =
     [\<lparr> Holding.name = ''Glen S&P 100'', Holding.symbol = ''Glen S&P 100'', value' = 100,
        dayChangePercent = 0, Holding.performance = None \<rparr>,
      \<lparr> Holding.name = ''Anne Growth'', Holding.symbol = ''Anne Growth'', value' = 50,
        dayChangePercent = 0, Holding.performance = None \<rparr>]"

section \<open>Numbers in table cells\<close>

text \<open>
  A JavaScript number is modelled by the rational it denotes, or \<open>NaN\<close>: the rounding
  of a decimal to the nearest double, the infinities and the sign of zero are not
  modelled.
\<close>

datatype number = NaN | Num rat

definition digitsValue :: "string \<Rightarrow> nat" where
  "digitsValue ds = foldl (\<lambda>a c. 10 * a + (code c - 48)) 0 ds"

text \<open>
  \<open>parseFloat\<close>, on the strings \<open>parseNumber\<close> gives it, which hold only digits, dots and
  minus signs: the longest prefix that is a decimal literal, an optional sign and then
  digits with an optional dot and further digits, or a dot and digits; \<open>NaN\<close> when
  there is no such prefix.
\<close>

definition parseFloat :: "string \<Rightarrow> number" where
  "parseFloat s =
     (let negative = (case s of [] \<Rightarrow> False | c # _ \<Rightarrow> c = CHR ''-'');
          r = (if negative then drop 1 s else s);
          intDigits = takeWhile isDigit r;
          r1 = dropWhile isDigit r;
          fracDigits = (case r1 of
              [] \<Rightarrow> []
            | c # r2 \<Rightarrow> if c = CHR ''.'' then takeWhile isDigit r2 else []);
          magnitude = of_nat (digitsValue intDigits)
                      + of_nat (digitsValue fracDigits) / 10 ^ length fracDigits
      in if intDigits = [] \<and> fracDigits = [] then NaN
         else Num (if negative then - magnitude else magnitude))"

text \<open>The three strings \<open>parseNumber\<close> computes from its argument: the argument
  without \<open>$\<close>, commas and parentheses, trimmed; whether it counts as negative; and
  what is left for \<open>parseFloat\<close> after everything but digits, dots and minus signs is
  removed.\<close>

definition cleanedText :: "string \<Rightarrow> string" where
  "cleanedText v = trim (filter (\<lambda>c. c \<notin> set ''$,()'') v)"

definition isNegativeText :: "string \<Rightarrow> bool" where
  "isNegativeText v = (CHR ''('' \<in> set v \<or> startsWith (cleanedText v) ''-'')"

definition numericText :: "string \<Rightarrow> string" where
  "numericText v = filter (\<lambda>c. isDigit c \<or> c = CHR ''.'' \<or> c = CHR ''-'') (cleanedText v)"

text \<open>The last line reads \<open>isNegative ? -Math.abs(num) : (num || 0)\<close>: the fallback
  to 0, for \<open>NaN\<close> and for 0, belongs to the second branch only.\<close>

definition parseNumber :: "string \<Rightarrow> number" where
  "parseNumber v =
     (if v = [] then Num 0
      else (let cleaned = cleanedText v;
                isNegative = isNegativeText v;
                num = parseFloat (numericText v)
            in if isNegative
               then (case num of NaN \<Rightarrow> NaN | Num n \<Rightarrow> Num (- \<bar>n\<bar>))
               else (case num of NaN \<Rightarrow> Num 0 | Num n \<Rightarrow> if n = 0 then Num 0 else Num n)))"

section \<open>Properties\<close>

subsection \<open>Evaluation\<close>

lemmas eval_defs = extractSecuritySymbols_def extractHoldingsFromPortfolio_def holdingAt_def
  isSymbolChar_def code_def isSpace_def isDigit_def firstSymbol_def List.map_filter_def
  mkModel_def trim_def

subsection \<open>Comparing one model\<close>

lemma removed_loop_skip:
  "\<forall>x \<in> set xs. x \<in> set T \<Longrightarrow> foldl (removedStep T H) acc xs = acc"
  by (induction xs arbitrary: acc) (simp_all add: removedStep_def)

lemma added_loop_skip:
  "\<forall>x \<in> set xs. x \<in> set Y \<Longrightarrow> foldl (addedStep Y H) acc xs = acc"
  by (induction xs arbitrary: acc) (simp_all add: addedStep_def)

lemma spreadSet_Nil: "spreadSet [] = []"
  by (simp add: spreadSet_def)

text \<open>
  C1. When the symbols extracted from today's portfolio text and from the previous
  trading day's are the same set, whatever the weights, \<open>compareModelHoldings\<close> reports
  no added and no removed holding.
\<close>

theorem weight_only_no_change:
  assumes "set (extractSecuritySymbols (portfolio (performance todayModel)))
         = set (extractSecuritySymbols (portfolio (performance yesterdayModel)))"
  shows "addedHoldings (compareModelHoldings todayModel (Some yesterdayModel) acct today) = []
       \<and> removedHoldings (compareModelHoldings todayModel (Some yesterdayModel) acct today) = []"
  using assms
  by (simp add: compareModelHoldings_def Let_def removed_loop_skip added_loop_skip spreadSet_Nil)

text \<open>The case of the specification: \<open>NVDA (22%), AVGO (39%)\<close> becomes
  \<open>NVDA (17%), AVGO (42%)\<close>.\<close>

theorem weight_only_no_change_witness:
  "set (extractSecuritySymbols ''NVDA (17%)\<newline>AVGO (42%)'')
     = set (extractSecuritySymbols ''NVDA (22%)\<newline>AVGO (39%)'')
   \<and> addedHoldings (compareModelHoldings (mkModel ''M'' ''NVDA (17%)\<newline>AVGO (42%)'')
        (Some (mkModel ''M'' ''NVDA (22%)\<newline>AVGO (39%)'')) ''Glen RRSP $USD'' 0) = []
   \<and> removedHoldings (compareModelHoldings (mkModel ''M'' ''NVDA (17%)\<newline>AVGO (42%)'')
        (Some (mkModel ''M'' ''NVDA (22%)\<newline>AVGO (39%)'')) ''Glen RRSP $USD'' 0) = []"
proof -
  have s: "set (extractSecuritySymbols
                 (portfolio (performance (mkModel ''M'' ''NVDA (17%)\<newline>AVGO (42%)''))))
         = set (extractSecuritySymbols
                 (portfolio (performance (mkModel ''M'' ''NVDA (22%)\<newline>AVGO (39%)''))))"
    by (simp add: eval_defs)
  have e: "set (extractSecuritySymbols ''NVDA (17%)\<newline>AVGO (42%)'')
         = set (extractSecuritySymbols ''NVDA (22%)\<newline>AVGO (39%)'')"
    by (simp add: eval_defs)
  from weight_only_no_change [OF s] e show ?thesis by blast
qed

text \<open>
  C2. A symbol that left the portfolio is looked up among the previous day's holdings by
  \<open>startsWith\<close>, so a holding whose symbol merely begins with it is taken when it comes
  first: with \<open>AAPL (25%), A (10%)\<close> on the previous day and \<open>AAPL (25%)\<close> today, the
  symbol \<open>A\<close> has left, and the holding reported as removed is \<open>AAPL (25%)\<close>.
\<close>

theorem prefix_lookup_reports_other_holding:
  "removedHoldings (compareModelHoldings (mkModel ''M'' ''AAPL (25%)'')
        (Some (mkModel ''M'' ''AAPL (25%)\<newline>A (10%)'')) ''Glen RRSP $USD'' 0)
     = [''AAPL (25%)'']"
  by code_simp

text \<open>The case of the specification, where no symbol is a prefix of another.\<close>

lemma combined_add_remove:
  "addedHoldings (compareModelHoldings (mkModel ''M'' ''PXT.TO (17%)\<newline>TSLA (15%)'')
        (Some (mkModel ''M'' ''PXT.TO (18%)\<newline>AAPL (25%)'')) ''Glen RRSP $USD'' 0)
     = [''TSLA (15%)'']
  \<and> removedHoldings (compareModelHoldings (mkModel ''M'' ''PXT.TO (17%)\<newline>TSLA (15%)'')
        (Some (mkModel ''M'' ''PXT.TO (18%)\<newline>AAPL (25%)'')) ''Glen RRSP $USD'' 0)
     = [''AAPL (25%)'']"
  by code_simp

subsection \<open>The holdings-string format\<close>

lemma char_classes:
  "isSpace CHR '' ''" "\<not> isSpace CHR ''(''" "\<not> isSpace CHR '')''" "\<not> isDigit CHR ''%''"
  "\<not> isSymbolChar CHR '' ''" "\<not> isSymbolCharBs CHR '' ''"
  by (simp_all add: isSpace_def isDigit_def isSymbolChar_def isSymbolCharBs_def code_def)

lemma isSymbolChar_not_space: "isSymbolChar c \<Longrightarrow> \<not> isSpace c"
  by (auto simp: isSymbolChar_def isSpace_def code_def)

lemma isSymbolChar_Bs: "isSymbolChar c \<Longrightarrow> isSymbolCharBs c"
  by (auto simp: isSymbolChar_def isSymbolCharBs_def)

lemma holdingAt_token:
  assumes smb: "smb \<noteq> []" "\<forall>c \<in> set smb. P c"
    and P: "\<not> P CHR '' ''" 
    and ds: "ds \<noteq> []" "\<forall>c \<in> set ds. isDigit c"
  shows "holdingAt P (holdingToken smb ds @ rest) = Some (holdingToken smb ds, rest)"
proof -
  let ?t1 = "CHR '' '' # CHR ''('' # ds @ CHR ''%'' # CHR '')'' # rest"
  have tw: "takeWhile P (smb @ ?t1) = smb" and dw: "dropWhile P (smb @ ?t1) = ?t1"
    using smb P by simp_all
  have dg: "takeWhile isDigit (ds @ CHR ''%'' # CHR '')'' # rest) = ds"
    "dropWhile isDigit (ds @ CHR ''%'' # CHR '')'' # rest) = CHR ''%'' # CHR '')'' # rest"
    using ds by (simp_all add: char_classes)
  have "holdingAt P (smb @ ?t1) = Some (smb @ '' ('' @ ds @ ''%)'', rest)"
    using smb(1) ds(1) by (simp add: holdingAt_def Let_def tw dw dg char_classes)
  then show ?thesis
    by (simp add: holdingToken_def)
qed

lemma matchHoldings_token:
  assumes "smb \<noteq> []" "\<forall>c \<in> set smb. P c" "\<not> P CHR '' ''" "ds \<noteq> []" "\<forall>c \<in> set ds. isDigit c"
  shows "matchHoldings P (holdingToken smb ds) = [holdingToken smb ds]"
proof -
  obtain c cs where t: "holdingToken smb ds = c # cs"
    using assms(1) by (cases smb) (auto simp: holdingToken_def)
  have "holdingAt P (c # cs) = Some (c # cs, [])"
    using holdingAt_token [OF assms, of "[]"] t by simp
  then show ?thesis unfolding t by simp
qed

lemma trim_token:
  assumes "smb \<noteq> []" "\<not> isSpace (hd smb)"
  shows "trim (holdingToken smb ds) = holdingToken smb ds"
proof -
  obtain c cs where s: "smb = c # cs" using assms(1) by (cases smb) auto
  have 1: "dropWhile isSpace (holdingToken smb ds) = holdingToken smb ds"
    using assms(2) s by (simp add: holdingToken_def)
  have 2: "rev (holdingToken smb ds) = CHR '')'' # rev (smb @ '' ('' @ ds @ ''%'')"
    by (simp add: holdingToken_def)
  have 3: "rev (dropWhile isSpace (CHR '')'' # rev (smb @ '' ('' @ ds @ ''%''))) = holdingToken smb ds"
    by (simp add: char_classes holdingToken_def)
  show ?thesis unfolding trim_def 1 2 3 ..
qed

text \<open>
  C7. A token \<open>SYMBOL (NN%)\<close>, its symbol made of capital letters and dots and its
  percentage of digits, is extracted as exactly itself by the change detector and by
  the combined-account service. A report interpolates the extracted entry verbatim, so
  the string reported is the string parsed.
\<close>

theorem holding_token_round_trip:
  assumes "smb \<noteq> []" "\<forall>c \<in> set smb. isSymbolChar c" "ds \<noteq> []" "\<forall>c \<in> set ds. isDigit c"
  shows "extractHoldingsFromPortfolio (holdingToken smb ds) = [holdingToken smb ds]
       \<and> extractHoldingsWithPercentages (holdingToken smb ds) = [holdingToken smb ds]"
proof -
  have ne: "holdingToken smb ds \<noteq> []" by (simp add: holdingToken_def)
  have hd: "\<not> isSpace (hd smb)"
    using assms(1,2) isSymbolChar_not_space by (cases smb) auto
  have b: "\<forall>c \<in> set smb. isSymbolCharBs c"
    using assms(2) isSymbolChar_Bs by blast
  have m1: "matchHoldings isSymbolChar (holdingToken smb ds) = [holdingToken smb ds]"
    by (rule matchHoldings_token [OF assms(1,2) char_classes(5) assms(3,4)])
  have m2: "matchHoldings isSymbolCharBs (holdingToken smb ds) = [holdingToken smb ds]"
    by (rule matchHoldings_token [OF assms(1) b char_classes(6) assms(3,4)])
  show ?thesis
    unfolding extractHoldingsFromPortfolio_def extractHoldingsWithPercentages_def m1 m2
    using ne trim_token [OF assms(1) hd] by simp
qed

text \<open>The case of the specification: \<open>NVDA (22%)\<close>.\<close>

theorem holding_token_round_trip_witness:
  "extractHoldingsFromPortfolio ''NVDA (22%)'' = [''NVDA (22%)'']
   \<and> extractHoldingsWithPercentages ''NVDA (22%)'' = [''NVDA (22%)'']"
proof -
  have 1: "''NVDA'' \<noteq> []" "\<forall>c \<in> set ''NVDA''. isSymbolChar c"
    by (simp_all add: isSymbolChar_def code_def)
  have 2: "''22'' \<noteq> []" "\<forall>c \<in> set ''22''. isDigit c"
    by (simp_all add: isDigit_def code_def)
  have 3: "holdingToken ''NVDA'' ''22'' = ''NVDA (22%)''" by (simp add: holdingToken_def)
  from holding_token_round_trip [OF 1 2] show ?thesis unfolding 3 .
qed


subsection \<open>The trading calendar\<close>

lemma holidays_eval:
  "MARKET_HOLIDAYS = [19723, 19737, 19772, 19811, 19870, 19893, 19908, 19968, 20055, 20056,
     20082, 20089, 20108, 20136, 20196, 20234, 20258, 20273, 20332, 20419, 20420, 20447]"
  by (simp add: MARKET_HOLIDAYS_def isoDate_def)

lemma holiday_next:
  assumes "x \<in> set MARKET_HOLIDAYS"
  shows "(x + 1 \<in> set MARKET_HOLIDAYS \<longrightarrow> x = 20055 \<or> x = 20419)
       \<and> x + 2 \<notin> set MARKET_HOLIDAYS \<and> x + 3 \<notin> set MARKET_HOLIDAYS
       \<and> x + 4 \<notin> set MARKET_HOLIDAYS"
proof -
  from assms have "x = 19723 \<or> x = 19737 \<or> x = 19772 \<or> x = 19811 \<or> x = 19870
      \<or> x = 19893 \<or> x = 19908 \<or> x = 19968 \<or> x = 20055 \<or> x = 20056 \<or> x = 20082
      \<or> x = 20089 \<or> x = 20108 \<or> x = 20136 \<or> x = 20196 \<or> x = 20234 \<or> x = 20258
      \<or> x = 20273 \<or> x = 20332 \<or> x = 20419 \<or> x = 20420 \<or> x = 20447"
    by (simp add: holidays_eval)
  then show ?thesis
    by (elim disjE) (simp_all add: holidays_eval)
qed

lemma holiday_gap:
  assumes "x \<in> set MARKET_HOLIDAYS" "y \<in> set MARKET_HOLIDAYS" "x < y" "y \<le> x + 4"
  shows "y = x + 1 \<and> (x = 20055 \<or> x = 20419)"
proof -
  from assms(3,4) consider "y = x + 1" | "y = x + 2" | "y = x + 3" | "y = x + 4"
    by linarith
  then show ?thesis
    using assms(2) holiday_next [OF assms(1)] by cases simp_all
qed

lemma three_weekdays:
  assumes "weekday x" "weekday y" "weekday z" "x < y" "y < z" "z \<le> x + 4"
  shows "marketOpen x \<or> marketOpen y \<or> marketOpen z"
proof (rule ccontr)
  assume "\<not> ?thesis"
  with assms(1-3) have h: "x \<in> set MARKET_HOLIDAYS" "y \<in> set MARKET_HOLIDAYS"
    "z \<in> set MARKET_HOLIDAYS"
    by (simp_all add: marketOpen_def)
  have yx: "y \<le> x + 4" and zy: "z \<le> y + 4" using assms(4-6) by linarith+
  from holiday_gap [OF h(1,2) assms(4) yx] have 1: "y = x + 1" "x = 20055 \<or> x = 20419"
    by simp_all
  from holiday_gap [OF h(2,3) assms(5) zy] have 2: "y = 20055 \<or> y = 20419"
    by simp
  from 1 2 show False by linarith
qed

lemma civilDayOfWeek_range:
  "civilDayOfWeek d = 0 \<or> civilDayOfWeek d = 1 \<or> civilDayOfWeek d = 2 \<or> civilDayOfWeek d = 3 \<or> civilDayOfWeek d = 4
   \<or> civilDayOfWeek d = 5 \<or> civilDayOfWeek d = 6"
proof -
  have "0 \<le> civilDayOfWeek d" "civilDayOfWeek d < 7" by (simp_all add: civilDayOfWeek_def)
  then show ?thesis by linarith
qed

lemma weekday_shift:
  "weekday (d + k) = ((civilDayOfWeek d + k) mod 7 \<noteq> 0 \<and> (civilDayOfWeek d + k) mod 7 \<noteq> 6)"
proof -
  have "civilDayOfWeek (d + k) = (civilDayOfWeek d + k) mod 7"
    by (simp add: civilDayOfWeek_def mod_simps ac_simps)
  then show ?thesis by (simp add: weekday_def)
qed

lemma weekday_back:
  "weekday (d - k) = ((civilDayOfWeek d - k) mod 7 \<noteq> 0 \<and> (civilDayOfWeek d - k) mod 7 \<noteq> 6)"
  using weekday_shift [of d "- k"] by simp

lemma weekdays_before:
  "(weekday (d - 3) \<and> weekday (d - 2) \<and> weekday (d - 1))
 \<or> (weekday (d - 4) \<and> weekday (d - 3) \<and> weekday (d - 2))
 \<or> (weekday (d - 5) \<and> weekday (d - 4) \<and> weekday (d - 3))
 \<or> (weekday (d - 5) \<and> weekday (d - 4) \<and> weekday (d - 1))
 \<or> (weekday (d - 5) \<and> weekday (d - 2) \<and> weekday (d - 1))"
  unfolding weekday_back using civilDayOfWeek_range [of d] by (elim disjE) simp_all

lemma weekdays_after:
  "(weekday (d + 1) \<and> weekday (d + 2) \<and> weekday (d + 3))
 \<or> (weekday (d + 2) \<and> weekday (d + 3) \<and> weekday (d + 4))
 \<or> (weekday (d + 3) \<and> weekday (d + 4) \<and> weekday (d + 5))
 \<or> (weekday (d + 1) \<and> weekday (d + 4) \<and> weekday (d + 5))
 \<or> (weekday (d + 1) \<and> weekday (d + 2) \<and> weekday (d + 5))"
  unfolding weekday_shift using civilDayOfWeek_range [of d] by (elim disjE) simp_all

lemma trading_day_before:
  "marketOpen (d - 1) \<or> marketOpen (d - 2) \<or> marketOpen (d - 3)
   \<or> marketOpen (d - 4) \<or> marketOpen (d - 5)"
  using weekdays_before [of d]
    three_weekdays [of "d - 3" "d - 2" "d - 1"] three_weekdays [of "d - 4" "d - 3" "d - 2"]
    three_weekdays [of "d - 5" "d - 4" "d - 3"] three_weekdays [of "d - 5" "d - 4" "d - 1"]
    three_weekdays [of "d - 5" "d - 2" "d - 1"]
  by simp blast

lemma trading_day_after:
  "marketOpen (d + 1) \<or> marketOpen (d + 2) \<or> marketOpen (d + 3)
   \<or> marketOpen (d + 4) \<or> marketOpen (d + 5)"
  using weekdays_after [of d]
    three_weekdays [of "d + 1" "d + 2" "d + 3"] three_weekdays [of "d + 2" "d + 3" "d + 4"]
    three_weekdays [of "d + 3" "d + 4" "d + 5"] three_weekdays [of "d + 1" "d + 4" "d + 5"]
    three_weekdays [of "d + 1" "d + 2" "d + 5"]
  by simp blast


lemma previous_exists: "\<exists>k. marketOpen (d - int (Suc k))"
proof -
  have "marketOpen (d - int (Suc 0)) \<or> marketOpen (d - int (Suc 1))
      \<or> marketOpen (d - int (Suc 2)) \<or> marketOpen (d - int (Suc 3))
      \<or> marketOpen (d - int (Suc 4))"
    using trading_day_before [of d] by simp
  then show ?thesis by blast
qed

lemma next_exists: "\<exists>k. marketOpen (d + int (Suc k))"
proof -
  have "marketOpen (d + int (Suc 0)) \<or> marketOpen (d + int (Suc 1))
      \<or> marketOpen (d + int (Suc 2)) \<or> marketOpen (d + int (Suc 3))
      \<or> marketOpen (d + int (Suc 4))"
    using trading_day_after [of d] by simp
  then show ?thesis by blast
qed

text \<open>In a fixed zone at or east of UTC, and less than a day from it, the local day of
  a UTC midnight is the UTC day: the code's calendar is the calendar.\<close>

lemma east_local_day:
  assumes "0 \<le> off" "off < msPerDay"
  shows "(d * msPerDay + off) div msPerDay = d"
  using assms by (simp add: msPerDay_def)

lemma toISODate_newDate: "toISODate (newDate d) = d"
  by (simp add: toISODate_def newDate_def msPerDay_def)

lemma east_getDay:
  assumes "0 \<le> off" "off < msPerDay"
  shows "getDay (fixedZone off) (newDate d) = civilDayOfWeek d"
  using east_local_day [OF assms, of d]
  by (simp add: getDay_def localTime_def fixedZone_def newDate_def civilDayOfWeek_def)

lemma fixed_addDays: "addDays (fixedZone off) (newDate d) k = newDate (d + k)"
  by (simp add: addDays_def localTime_def fixedZone_def newDate_def Let_def algebra_simps)

lemma east_isTradingDay:
  assumes "0 \<le> off" "off < msPerDay"
  shows "isTradingDay (fixedZone off) d = marketOpen d"
  by (auto simp: isTradingDay_def Let_def east_getDay [OF assms] marketOpen_def weekday_def)

lemma previousLoop_steps:
  assumes east: "0 \<le> off" "off < msPerDay"
  shows "marketOpen (d - int (Suc k)) \<Longrightarrow> (\<forall>j < k. \<not> marketOpen (d - int (Suc j)))
   \<Longrightarrow> previousLoop (fixedZone off) (newDate d) = Some (d - int (Suc k))"
proof (induction k arbitrary: d)
  case 0
  then show ?case
    by (subst previousLoop.simps)
       (simp add: fixed_addDays toISODate_newDate east_isTradingDay [OF east])
next
  case (Suc k)
  from Suc.prems(2) have n: "\<not> marketOpen (d - 1)" by force
  have a: "marketOpen (d - 1 - int (Suc k))" using Suc.prems(1) by (simp add: algebra_simps)
  have b: "\<forall>j < k. \<not> marketOpen (d - 1 - int (Suc j))"
  proof (intro allI impI)
    fix j assume "j < k"
    then have "Suc j < Suc k" by simp
    with Suc.prems(2) have "\<not> marketOpen (d - int (Suc (Suc j)))" by blast
    then show "\<not> marketOpen (d - 1 - int (Suc j))" by (simp add: algebra_simps)
  qed
  have "previousLoop (fixedZone off) (newDate d) = previousLoop (fixedZone off) (newDate (d - 1))"
    using n by (subst previousLoop.simps)
       (simp add: fixed_addDays toISODate_newDate east_isTradingDay [OF east])
  also have "\<dots> = Some (d - 1 - int (Suc k))" by (rule Suc.IH [OF a b])
  finally show ?case by (simp add: algebra_simps)
qed

lemma nextLoop_steps:
  assumes east: "0 \<le> off" "off < msPerDay"
  shows "marketOpen (d + int (Suc k)) \<Longrightarrow> (\<forall>j < k. \<not> marketOpen (d + int (Suc j)))
   \<Longrightarrow> nextLoop (fixedZone off) (newDate d) = Some (d + int (Suc k))"
proof (induction k arbitrary: d)
  case 0
  then show ?case
    by (subst nextLoop.simps)
       (simp add: fixed_addDays toISODate_newDate east_isTradingDay [OF east])
next
  case (Suc k)
  from Suc.prems(2) have n: "\<not> marketOpen (d + 1)" by force
  have a: "marketOpen (d + 1 + int (Suc k))" using Suc.prems(1) by (simp add: algebra_simps)
  have b: "\<forall>j < k. \<not> marketOpen (d + 1 + int (Suc j))"
  proof (intro allI impI)
    fix j assume "j < k"
    then have "Suc j < Suc k" by simp
    with Suc.prems(2) have "\<not> marketOpen (d + int (Suc (Suc j)))" by blast
    then show "\<not> marketOpen (d + 1 + int (Suc j))" by (simp add: algebra_simps)
  qed
  have "nextLoop (fixedZone off) (newDate d) = nextLoop (fixedZone off) (newDate (d + 1))"
    using n by (subst nextLoop.simps)
       (simp add: fixed_addDays toISODate_newDate east_isTradingDay [OF east])
  also have "\<dots> = Some (d + 1 + int (Suc k))" by (rule Suc.IH [OF a b])
  finally show ?case by (simp add: algebra_simps)
qed

text \<open>
  In such a zone, UTC among them, the calendar functions are what their comments say:
  a date is not a trading day exactly when it is a Saturday, a Sunday or in the
  holiday list, and both loops return, with the nearest trading day.
\<close>

lemma getPreviousTradingDay_latest:
  assumes east: "0 \<le> off" "off < msPerDay"
  shows "\<exists>r. getPreviousTradingDay (fixedZone off) d = Some r \<and> r < d \<and> marketOpen r
       \<and> (\<forall>m. r < m \<and> m < d \<longrightarrow> \<not> marketOpen m)"
proof -
  define k where "k = (LEAST k. marketOpen (d - int (Suc k)))"
  have t: "marketOpen (d - int (Suc k))"
    unfolding k_def using previous_exists [of d] by (rule LeastI_ex)
  have l: "\<forall>j < k. \<not> marketOpen (d - int (Suc j))"
    unfolding k_def using not_less_Least by blast
  have r: "getPreviousTradingDay (fixedZone off) d = Some (d - int (Suc k))"
    unfolding getPreviousTradingDay_def by (rule previousLoop_steps [OF east t l])
  have b: "\<not> marketOpen m" if "d - int (Suc k) < m" "m < d" for m
  proof -
    define j where "j = nat (d - m - 1)"
    have "j < k" and "m = d - int (Suc j)" using that by (simp_all add: j_def)
    then show ?thesis using l by blast
  qed
  show ?thesis using r t b by (intro exI [of _ "d - int (Suc k)"]) auto
qed

lemma getNextTradingDay_earliest:
  assumes east: "0 \<le> off" "off < msPerDay"
  shows "\<exists>r. getNextTradingDay (fixedZone off) d = Some r \<and> d < r \<and> marketOpen r
       \<and> (\<forall>m. d < m \<and> m < r \<longrightarrow> \<not> marketOpen m)"
proof -
  define k where "k = (LEAST k. marketOpen (d + int (Suc k)))"
  have t: "marketOpen (d + int (Suc k))"
    unfolding k_def using next_exists [of d] by (rule LeastI_ex)
  have l: "\<forall>j < k. \<not> marketOpen (d + int (Suc j))"
    unfolding k_def using not_less_Least by blast
  have r: "getNextTradingDay (fixedZone off) d = Some (d + int (Suc k))"
    unfolding getNextTradingDay_def by (rule nextLoop_steps [OF east t l])
  have b: "\<not> marketOpen m" if "m < d + int (Suc k)" "d < m" for m
  proof -
    define j where "j = nat (m - d - 1)"
    have "j < k" and "m = d + int (Suc j)" using that by (simp_all add: j_def)
    then show ?thesis using l by blast
  qed
  show ?thesis using r t b by (intro exI [of _ "d + int (Suc k)"]) auto
qed

lemma trading_calendar_east_of_utc:
  assumes east: "0 \<le> off" "off < msPerDay"
  shows "(\<not> isTradingDay (fixedZone off) d \<longleftrightarrow>
            civilDayOfWeek d = 6 \<or> civilDayOfWeek d = 0 \<or> d \<in> set MARKET_HOLIDAYS)
 \<and> (\<exists>r. getPreviousTradingDay (fixedZone off) d = Some r \<and> r < d
        \<and> isTradingDay (fixedZone off) r
        \<and> (\<forall>m. r < m \<and> m < d \<longrightarrow> \<not> isTradingDay (fixedZone off) m))
 \<and> (\<exists>r. getNextTradingDay (fixedZone off) d = Some r \<and> d < r
        \<and> isTradingDay (fixedZone off) r
        \<and> (\<forall>m. d < m \<and> m < r \<longrightarrow> \<not> isTradingDay (fixedZone off) m))"
  unfolding east_isTradingDay [OF east]
proof (intro conjI)
  show "\<not> marketOpen d \<longleftrightarrow> civilDayOfWeek d = 6 \<or> civilDayOfWeek d = 0 \<or> d \<in> set MARKET_HOLIDAYS"
    by (auto simp: marketOpen_def weekday_def)
qed (rule getPreviousTradingDay_latest [OF east], rule getNextTradingDay_earliest [OF east])

lemma trading_calendar_utc:
  "getPreviousTradingDay utc (isoDate 2024 12 2) = Some (isoDate 2024 11 27)"
  "getNextTradingDay utc (isoDate 2024 11 27) = Some (isoDate 2024 12 2)"
  "\<not> isTradingDay utc (isoDate 2024 11 30)"
  "\<not> isTradingDay utc (isoDate 2024 11 28)"
  "isTradingDay utc (isoDate 2024 12 2)"
  by code_simp+

text \<open>
  C5. The claim holds of the calendar only where the local day of a UTC midnight is the
  UTC day. \<open>isTradingDay\<close> parses the date as midnight UTC and reads the day of the week
  in local time, which west of UTC is that of the day before. Five hours west:
  Saturday 30 November 2024 is taken for a trading day; Monday 2 December 2024, not a
  holiday, is not; and the trading day before that Monday is given as the Saturday,
  where the calendar has Wednesday 27 November.
\<close>

theorem weekday_read_in_local_time:
  "civilDayOfWeek (isoDate 2024 11 30) = 6
 \<and> isTradingDay utcMinus5 (isoDate 2024 11 30)
 \<and> civilDayOfWeek (isoDate 2024 12 2) = 1
 \<and> isoDate 2024 12 2 \<notin> set MARKET_HOLIDAYS
 \<and> \<not> isTradingDay utcMinus5 (isoDate 2024 12 2)
 \<and> getPreviousTradingDay utcMinus5 (isoDate 2024 12 2) = Some (isoDate 2024 11 30)
 \<and> getPreviousTradingDay utc (isoDate 2024 12 2) = Some (isoDate 2024 11 27)"
  by code_simp


subsection \<open>Detecting the changes of a day\<close>

text \<open>When \<open>isTradingDay\<close> says no, \<open>detectChanges\<close> returns at once: no change, no
  affected account, no comparison date, the calendar's reason as the message, and the
  account service is not asked for any day.\<close>

lemma short_circuit_when_closed:
  assumes "\<not> isTradingDay z today"
  shows "detectChanges z localeCompare fetch now (Some today) =
           Some (Inr \<lparr> hasChanges = False, changes = [], totalChanges = 0,
                       affectedAccounts = [], date = today, comparisonDate = None,
                       message = (if getDay z (newDate today) = 0 \<or> getDay z (newDate today) = 6
                                  then ''Markets closed - Weekend''
                                  else ''Markets closed - Holiday'') \<rparr>,
                 [])"
  using assms by (simp add: detectChanges_def getNoChangeReason_def Let_def)

text \<open>In a fixed zone at or east of UTC that is so on every Saturday, Sunday and
  listed holiday.\<close>

lemma short_circuit_east_of_utc:
  assumes "0 \<le> off" "off < msPerDay"
    and "civilDayOfWeek today = 6 \<or> civilDayOfWeek today = 0 \<or> today \<in> set MARKET_HOLIDAYS"
  shows "detectChanges (fixedZone off) localeCompare fetch now (Some today) =
           Some (Inr \<lparr> hasChanges = False, changes = [], totalChanges = 0,
                       affectedAccounts = [], date = today, comparisonDate = None,
                       message = (if civilDayOfWeek today = 0 \<or> civilDayOfWeek today = 6
                                  then ''Markets closed - Weekend''
                                  else ''Markets closed - Holiday'') \<rparr>,
                 [])"
proof -
  have "\<not> isTradingDay (fixedZone off) today"
    using assms(3) by (auto simp: east_isTradingDay [OF assms(1,2)] marketOpen_def weekday_def)
  from short_circuit_when_closed [OF this] show ?thesis
    by (simp add: east_getDay [OF assms(1,2)])
qed

text \<open>The older copy asks the account service for two days on every date, a trading
  day or not.\<close>

lemma detectChangesOld_always_fetches:
  "snd (detectChangesOld z localeCompare fetch now (Some today))
     = [today, getYesterdayDate z today]"
  by (simp add: detectChangesOld_def Let_def split: sum.splits)

lemma detectChangesOld_on_a_saturday:
  "snd (detectChangesOld utc rootCollation (fetchFrom emptyModelGone) 0
          (Some (isoDate 2024 11 30)))
     = [isoDate 2024 11 30, isoDate 2024 11 29]"
  by code_simp

text \<open>
  C3. West of UTC a Saturday is taken for a trading day, and \<open>detectChanges\<close> goes on
  to the account service. Five hours west, on Saturday 30 November 2024, it asks for
  that day and for Wednesday 27 November, and the alert it returns has a comparison
  date.
\<close>

theorem saturday_is_compared_west_of_utc:
  "civilDayOfWeek (isoDate 2024 11 30) = 6
 \<and> detectChanges utcMinus5 rootCollation (fetchFrom emptyModelGone) 0
       (Some (isoDate 2024 11 30)) =
     Some (Inr \<lparr> hasChanges = False, changes = [], totalChanges = 0,
                 affectedAccounts = [], date = isoDate 2024 11 30,
                 comparisonDate = Some (isoDate 2024 11 27),
                 message = ''No changes detected compared to previous trading day (2024-11-27)'' \<rparr>,
           [isoDate 2024 11 30, isoDate 2024 11 27])"
  by code_simp

text \<open>In UTC the same call returns at once.\<close>

lemma saturday_in_utc:
  "detectChanges utc rootCollation (fetchFrom emptyModelGone) 0 (Some (isoDate 2024 11 30)) =
     Some (Inr \<lparr> hasChanges = False, changes = [], totalChanges = 0,
                 affectedAccounts = [], date = isoDate 2024 11 30, comparisonDate = None,
                 message = ''Markets closed - Weekend'' \<rparr>, [])"
  by code_simp

lemma find_first_Some: "find_first P xs = Some x \<Longrightarrow> x \<in> set xs \<and> P x"
  by (induction xs) (auto split: if_splits)

lemma find_first_None: "find_first P xs = None \<Longrightarrow> \<forall>x \<in> set xs. \<not> P x"
  by (induction xs) (auto split: if_splits)

lemma set_insertBy: "set (insertBy cmp x ys) = insert x (set ys)"
  by (induction ys) auto

lemma set_sortBy: "set (sortBy cmp xs) = set xs"
  by (induction xs) (simp_all add: sortBy_def set_insertBy)

lemma foldl_invariant:
  assumes "I st" and "\<And>st x. I st \<Longrightarrow> x \<in> set xs \<Longrightarrow> I (f st x)"
  shows "I (foldl f st xs)"
  using assms by (induction xs arbitrary: st) simp_all

lemma modelStep_changes:
  assumes "\<forall>c \<in> set (fst st). Q c"
    and "\<And>c. addedHoldings c \<noteq> [] \<or> removedHoldings c \<noteq> [] \<Longrightarrow> Q c"
  shows "\<forall>c \<in> set (fst (modelStep today ta pa st m)). Q c"
  using assms by (auto simp: modelStep_def Let_def)

lemma removedModelStep_changes:
  assumes "\<forall>c \<in> set (fst st). Q c"
    and "(\<forall>tm \<in> set (models ta). name tm \<noteq> name pm) \<Longrightarrow>
           Q \<lparr> modelName = name pm, accountName = AccountPortfolio.accountName ta,
               addedHoldings = [],
               removedHoldings = extractHoldingsFromPortfolio (portfolio (performance pm)),
               date = today \<rparr>"
  shows "\<forall>c \<in> set (fst (removedModelStep today ta st pm)). Q c"
proof (cases "find_first (\<lambda>tm. name tm = name pm) (models ta)")
  case None
  from find_first_None [OF None] have "\<forall>tm \<in> set (models ta). name tm \<noteq> name pm" by simp
  with assms None show ?thesis by (auto simp: removedModelStep_def Let_def)
next
  case (Some a)
  with assms(1) show ?thesis by (simp add: removedModelStep_def)
qed

lemma removedModelReportI:
  assumes "ta \<in> set tps" "pa \<in> set pps" "pm \<in> set (models pa)"
    "AccountPortfolio.accountName pa = AccountPortfolio.accountName ta"
    "\<forall>tm \<in> set (models ta). name tm \<noteq> name pm"
  shows "removedModelReport today tps pps
           \<lparr> modelName = name pm, accountName = AccountPortfolio.accountName ta,
             addedHoldings = [],
             removedHoldings = extractHoldingsFromPortfolio (portfolio (performance pm)),
             date = today \<rparr>"
  unfolding removedModelReport_def
proof (rule bexI [OF _ assms(1)], rule bexI [OF _ assms(2)], rule bexI [OF _ assms(3)])
  show "AccountPortfolio.accountName pa = AccountPortfolio.accountName ta \<and>
    (\<forall>tm \<in> set (models ta). name tm \<noteq> name pm) \<and>
    \<lparr> modelName = name pm, accountName = AccountPortfolio.accountName ta,
      addedHoldings = [],
      removedHoldings = extractHoldingsFromPortfolio (portfolio (performance pm)),
      date = today \<rparr> =
    \<lparr> modelName = name pm, accountName = AccountPortfolio.accountName ta,
      addedHoldings = [],
      removedHoldings = extractHoldingsFromPortfolio (portfolio (performance pm)),
      date = today \<rparr>"
    using assms(4,5) by simp
qed

lemma accountStep_changes:
  assumes st: "\<forall>c \<in> set (fst st). changeShape today tps pps c" and ta: "ta \<in> set tps"
  shows "\<forall>c \<in> set (fst (accountStep today pps st ta)). changeShape today tps pps c"
proof -
  let ?pa = "find_first (\<lambda>ya. AccountPortfolio.accountName ya = AccountPortfolio.accountName ta) pps"
  let ?I = "\<lambda>s::detection. \<forall>c \<in> set (fst s). changeShape today tps pps c"
  let ?st1 = "foldl (modelStep today ta ?pa) st (models ta)"
  have 1: "?I ?st1"
  proof (rule foldl_invariant [where I = ?I])
    show "?I st" by (rule st)
  next
    fix s :: detection and m
    assume s: "?I s"
    show "?I (modelStep today ta ?pa s m)"
      by (rule modelStep_changes [OF s]) (auto simp: changeShape_def)
  qed
  show ?thesis
  proof (cases ?pa)
    case None
    with 1 show ?thesis by (simp add: accountStep_def Let_def)
  next
    case (Some pa)
    from find_first_Some [OF Some] have pa: "pa \<in> set pps"
      "AccountPortfolio.accountName pa = AccountPortfolio.accountName ta" by simp_all
    have "?I (foldl (removedModelStep today ta) ?st1 (models pa))"
    proof (rule foldl_invariant [where I = ?I])
      show "?I ?st1" by (rule 1)
    next
      fix s :: detection and pm
      assume s: "?I s" and pm: "pm \<in> set (models pa)"
      show "?I (removedModelStep today ta s pm)"
      proof (rule removedModelStep_changes [OF s])
        assume "\<forall>tm \<in> set (models ta). name tm \<noteq> name pm"
        from removedModelReportI [OF ta pa(1) pm pa(2) this]
        show "changeShape today tps pps
            \<lparr> modelName = name pm, accountName = AccountPortfolio.accountName ta,
              addedHoldings = [],
              removedHoldings = extractHoldingsFromPortfolio (portfolio (performance pm)),
              date = today \<rparr>"
          unfolding changeShape_def by (intro disjI2)
      qed
    qed
    with Some show ?thesis by (simp add: accountStep_def Let_def)
  qed
qed

lemma compareDays_changes:
  assumes "c \<in> set (changes (compareDays localeCompare today prev tps pps))"
  shows "changeShape today tps pps c"
proof -
  let ?I = "\<lambda>s::detection. \<forall>c \<in> set (fst s). changeShape today tps pps c"
  have "?I (foldl (accountStep today pps) ([], []) tps)"
  proof (rule foldl_invariant [where I = ?I])
    show "?I ([], [])" by simp
  next
    fix s :: detection and ta
    assume "?I s" "ta \<in> set tps"
    then show "?I (accountStep today pps s ta)" by (rule accountStep_changes)
  qed
  with assms show ?thesis by (simp add: compareDays_def Let_def set_sortBy)
qed

text \<open>
  C6, as the code has it. Every change in the alert of \<open>detectChanges\<close>, in any time
  zone, has an added or a removed holding, or else it reports a model of the previous
  trading day's account
  that today's account no longer has: such a report is made for every model that is
  gone, and its removed holdings are whatever the model's previous portfolio text
  yields, which may be nothing.
\<close>

theorem change_has_holdings_or_reports_removed_model:
  assumes "detectChanges z localeCompare fetch now todayDate = Some (Inr alert, asked)"
    and "c \<in> set (changes alert)"
  shows "addedHoldings c \<noteq> [] \<or> removedHoldings c \<noteq> []
       \<or> (\<exists>previousTradingDay todayPortfolios previousPortfolios.
             comparisonDate alert = Some previousTradingDay
           \<and> fetch (ChangeAlert.date alert) = Inr todayPortfolios
           \<and> fetch previousTradingDay = Inr previousPortfolios
           \<and> removedModelReport (ChangeAlert.date alert) todayPortfolios previousPortfolios c)"
proof -
  define today where "today = (case todayDate of Some d \<Rightarrow> d | None \<Rightarrow> now)"
  show ?thesis
  proof (cases "isTradingDay z today")
    case False
    with assms(1) have "changes alert = []"
      by (auto simp: detectChanges_def today_def [symmetric] Let_def split: option.splits)
    with assms(2) show ?thesis by simp
  next
    case True
    with assms(1) obtain prev tps pps where p: "getPreviousTradingDay z today = Some prev"
      "fetch today = Inr tps" "fetch prev = Inr pps"
      "alert = compareDays localeCompare today prev tps pps"
      by (auto simp: detectChanges_def today_def [symmetric] Let_def
               split: option.splits sum.splits)
    have a: "ChangeAlert.date alert = today" "comparisonDate alert = Some prev"
      by (simp_all add: p(4) compareDays_def Let_def)
    from assms(2) have "changeShape today tps pps c"
      unfolding p(4) by (rule compareDays_changes)
    then show ?thesis
      unfolding changeShape_def a using p(2,3) by blast
  qed
qed

lemma monday_after_thanksgiving:
  "getPreviousTradingDay utc (isoDate 2024 12 2) = Some (isoDate 2024 11 27)"
  "isTradingDay utc (isoDate 2024 12 2)"
  by code_simp+

text \<open>In that table the one change of the alert reports the removed model \<open>M2\<close>.\<close>

theorem change_has_holdings_or_reports_removed_model_witness:
  "detectChanges utc rootCollation (fetchFrom emptyModelGone) 0 (Some (isoDate 2024 12 2)) =
     Some (Inr (compareDays rootCollation (isoDate 2024 12 2) (isoDate 2024 11 27)
                  (snd (emptyModelGone ! 0)) (snd (emptyModelGone ! 1))),
           [isoDate 2024 12 2, isoDate 2024 11 27])
 \<and> \<lparr> modelName = ''M2'', accountName = ''Glen RRSP $USD'',
       addedHoldings = [], removedHoldings = [], date = isoDate 2024 12 2 \<rparr>
     \<in> set (changes (compareDays rootCollation (isoDate 2024 12 2) (isoDate 2024 11 27)
                (snd (emptyModelGone ! 0)) (snd (emptyModelGone ! 1))))
 \<and> (\<exists>previousTradingDay todayPortfolios previousPortfolios.
       comparisonDate (compareDays rootCollation (isoDate 2024 12 2) (isoDate 2024 11 27)
           (snd (emptyModelGone ! 0)) (snd (emptyModelGone ! 1))) = Some previousTradingDay
     \<and> fetchFrom emptyModelGone (ChangeAlert.date
           (compareDays rootCollation (isoDate 2024 12 2) (isoDate 2024 11 27)
              (snd (emptyModelGone ! 0)) (snd (emptyModelGone ! 1)))) = Inr todayPortfolios
     \<and> fetchFrom emptyModelGone previousTradingDay = Inr previousPortfolios
     \<and> removedModelReport (ChangeAlert.date
           (compareDays rootCollation (isoDate 2024 12 2) (isoDate 2024 11 27)
              (snd (emptyModelGone ! 0)) (snd (emptyModelGone ! 1))))
           todayPortfolios previousPortfolios
           \<lparr> modelName = ''M2'', accountName = ''Glen RRSP $USD'',
             addedHoldings = [], removedHoldings = [], date = isoDate 2024 12 2 \<rparr>)"
proof -
  let ?alert = "compareDays rootCollation (isoDate 2024 12 2) (isoDate 2024 11 27)
                  (snd (emptyModelGone ! 0)) (snd (emptyModelGone ! 1))"
  let ?c = "\<lparr> modelName = ''M2'', accountName = ''Glen RRSP $USD'',
         addedHoldings = [], removedHoldings = [], date = isoDate 2024 12 2 \<rparr>"
  have f: "fetchFrom emptyModelGone (isoDate 2024 12 2) = Inr (snd (emptyModelGone ! 0))"
    "fetchFrom emptyModelGone (isoDate 2024 11 27) = Inr (snd (emptyModelGone ! 1))"
    by code_simp+
  have 1: "detectChanges utc rootCollation (fetchFrom emptyModelGone) 0 (Some (isoDate 2024 12 2))
         = Some (Inr ?alert, [isoDate 2024 12 2, isoDate 2024 11 27])"
    by (simp add: detectChanges_def Let_def monday_after_thanksgiving f)
  have 2: "changes ?alert = [?c]"
    by code_simp
  have 3: "?c \<in> set (changes ?alert)" unfolding 2 by simp
  have 4: "addedHoldings ?c = []" "removedHoldings ?c = []" by simp_all
  from change_has_holdings_or_reports_removed_model [OF 1 3] 4 1 3
  show ?thesis by blast
qed

text \<open>The alert for that table: its one change has nothing added and nothing removed.\<close>

theorem removed_model_without_holdings:
  "detectChanges utc rootCollation (fetchFrom emptyModelGone) 0 (Some (isoDate 2024 12 2)) =
     Some (Inr \<lparr> hasChanges = True,
                 changes = [\<lparr> modelName = ''M2'', accountName = ''Glen RRSP $USD'',
                              addedHoldings = [], removedHoldings = [],
                              date = isoDate 2024 12 2 \<rparr>],
                 totalChanges = 1,
                 affectedAccounts = [''Glen RRSP $USD''],
                 date = isoDate 2024 12 2,
                 comparisonDate = Some (isoDate 2024 11 27),
                 message = ''Found 1 changes compared to previous trading day (2024-11-27)'' \<rparr>,
           [isoDate 2024 12 2, isoDate 2024 11 27])"
  by code_simp

subsection \<open>The model-name matchers\<close>

text \<open>
  C10, as the code has it. The matchers of the email parser and of the account
  service are the same function. The matcher of the watch list tests containment after
  the numeric prefix is stripped, not before, and agrees with the other two on names
  that stripping and trimming leave unchanged.
\<close>

theorem matchers_agree_without_prefix:
  "EmailParser_modelsMatch a b = AccountPortfolioService_modelsMatch a b
 \<and> (trim (stripNumberPrefix a) = a \<and> trim (stripNumberPrefix b) = b
      \<longrightarrow> ModelWatchListService_modelsMatch a b = EmailParser_modelsMatch a b)"
  by (auto simp: EmailParser_modelsMatch_def AccountPortfolioService_modelsMatch_def
        ModelWatchListService_modelsMatch_def Let_def)

text \<open>The names \<open>Glen S&P 100\<close> and \<open>glen s&p\<close> have no prefix, and all three matchers
  accept them.\<close>

theorem matchers_agree_without_prefix_witness:
  "trim (stripNumberPrefix ''Glen S&P 100'') = ''Glen S&P 100''
 \<and> trim (stripNumberPrefix ''glen s&p'') = ''glen s&p''
 \<and> EmailParser_modelsMatch ''Glen S&P 100'' ''glen s&p''
 \<and> AccountPortfolioService_modelsMatch ''Glen S&P 100'' ''glen s&p''
 \<and> ModelWatchListService_modelsMatch ''Glen S&P 100'' ''glen s&p''"
proof -
  have 1: "trim (stripNumberPrefix ''Glen S&P 100'') = ''Glen S&P 100''"
    "trim (stripNumberPrefix ''glen s&p'') = ''glen s&p''"
    by code_simp+
  have 2: "EmailParser_modelsMatch ''Glen S&P 100'' ''glen s&p''"
    by code_simp
  from matchers_agree_without_prefix [of "''Glen S&P 100''" "''glen s&p''"] 1 2
  show ?thesis by simp
qed

text \<open>The names \<open>1. Growth Fund\<close> and \<open>2. Growth\<close>: neither contains the other, and
  without their prefixes the first contains the second.\<close>

theorem matchers_differ_on_prefixed_names:
  "\<not> EmailParser_modelsMatch ''1. Growth Fund'' ''2. Growth''
 \<and> \<not> AccountPortfolioService_modelsMatch ''1. Growth Fund'' ''2. Growth''
 \<and> ModelWatchListService_modelsMatch ''1. Growth Fund'' ''2. Growth''"
  by code_simp

text \<open>The cases of the specification.\<close>

lemma modelsMatch_examples:
  "EmailParser_modelsMatch ''1. Glen S&P 100'' ''Glen S&P 100''"
  "\<not> EmailParser_modelsMatch ''Unrelated Fund'' ''Glen S&P 100''"
  "ModelWatchListService_modelsMatch ''1. Glen S&P 100'' ''Glen S&P 100''"
  "\<not> ModelWatchListService_modelsMatch ''Unrelated Fund'' ''Glen S&P 100''"
  by code_simp+

subsection \<open>The currency suffix of an account name\<close>












text \<open>The two patterns differ in the blanks: a code that follows the name directly is
  read as the currency and is not stripped from the name.\<close>

lemma suffix_without_blank:
  "extractBaseAccountName ''Glen RRSP$CAD'' = ''Glen RRSP$CAD''"
  "extractCurrency ''Glen RRSP$CAD'' = ''CAD''"
  by code_simp+

subsection \<open>The order of the assembled accounts\<close>

lemma sortedBy_Cons:
  "sortedBy cmp (y # ws) \<longleftrightarrow> ws = [] \<or> (cmp y (hd ws) \<le> 0 \<and> sortedBy cmp ws)"
  by (cases ws) simp_all

lemma insertBy_not_Nil: "insertBy cmp x ys \<noteq> []"
  by (cases ys) simp_all

lemma hd_insertBy:
  "hd (insertBy cmp x ys) = (if ys = [] \<or> cmp x (hd ys) \<le> 0 then x else hd ys)"
  by (cases ys) simp_all

lemma sortedBy_insertBy:
  assumes total: "\<forall>a b. cmp a b \<le> 0 \<or> cmp b a \<le> 0"
  shows "sortedBy cmp ys \<Longrightarrow> sortedBy cmp (insertBy cmp x ys)"
proof (induction ys)
  case Nil
  then show ?case by simp
next
  case (Cons y ys)
  show ?case
  proof (cases "cmp x y \<le> 0")
    case True
    with Cons.prems show ?thesis by simp
  next
    case False
    with total have yx: "cmp y x \<le> 0" by blast
    from Cons.prems have ys: "sortedBy cmp ys" "ys = [] \<or> cmp y (hd ys) \<le> 0"
      by (auto simp: sortedBy_Cons)
    have "cmp y (hd (insertBy cmp x ys)) \<le> 0"
      using yx ys(2) by (auto simp: hd_insertBy)
    with Cons.IH [OF ys(1)] False show ?thesis
      by (simp add: sortedBy_Cons insertBy_not_Nil)
  qed
qed

lemma sortedBy_sortBy:
  assumes "\<forall>a b. cmp a b \<le> 0 \<or> cmp b a \<le> 0"
  shows "sortedBy cmp (sortBy cmp xs)"
  by (induction xs) (simp_all add: sortBy_def sortedBy_insertBy [OF assms])

text \<open>
  C9, as the code has it. The accounts that \<open>getAccountPortfolios\<close> returns are in the
  order of \<open>localeCompare\<close> on their names: each name compares at most equal to the
  next one. Of the collation only that it compares any two names one way or the other
  is used.
\<close>

theorem accounts_sorted_by_collation:
  assumes "\<forall>a b. localeCompare a b \<le> 0 \<or> localeCompare b a \<le> 0"
    and "getAccountPortfolios localeCompare day mappings emails = Inr accountPortfolios"
  shows "sortedBy (\<lambda>a b. localeCompare (AccountPortfolio.accountName a)
                       (AccountPortfolio.accountName b)) accountPortfolios"
proof -
  let ?cmp = "\<lambda>a b. localeCompare (AccountPortfolio.accountName a) (AccountPortfolio.accountName b)"
  have t: "\<forall>a b. ?cmp a b \<le> 0 \<or> ?cmp b a \<le> 0" using assms(1) by blast
  from assms(2) have "accountPortfolios = [] \<or> (\<exists>xs. accountPortfolios = sortBy ?cmp xs)"
    by (auto simp: getAccountPortfolios_def Let_def split: if_splits sum.splits)
  then show ?thesis using sortedBy_sortBy [of ?cmp, OF t] by auto
qed

lemma compareWeights_flip: "compareWeights b a = - compareWeights a b"
  by (induction a b rule: compareWeights.induct) auto

lemma rootCollation_flip: "rootCollation b a = - rootCollation a b"
proof -
  let ?a = "filter (\<lambda>c. primaryWeight c \<noteq> None) a"
  let ?b = "filter (\<lambda>c. primaryWeight c \<noteq> None) b"
  have "compareWeights (map (the \<circ> primaryWeight) ?b) (map (the \<circ> primaryWeight) ?a)
      = - compareWeights (map (the \<circ> primaryWeight) ?a) (map (the \<circ> primaryWeight) ?b)"
    and "compareWeights (map caseWeight ?b) (map caseWeight ?a)
      = - compareWeights (map caseWeight ?a) (map caseWeight ?b)"
    by (rule compareWeights_flip)+
  then show ?thesis by (simp add: rootCollation_def Let_def)
qed

lemma rootCollation_total: "\<forall>a b. rootCollation a b \<le> 0 \<or> rootCollation b a \<le> 0"
proof (intro allI)
  fix a b
  show "rootCollation a b \<le> 0 \<or> rootCollation b a \<le> 0"
    using rootCollation_flip [of b a] by linarith
qed

text \<open>The two accounts of the sheet come out with \<open>anne TFSA\<close> before \<open>Glen RRSP\<close>.\<close>

theorem accounts_sorted_by_collation_witness:
  "(\<forall>a b. rootCollation a b \<le> 0 \<or> rootCollation b a \<le> 0)
 \<and> (\<exists>accountPortfolios.
       getAccountPortfolios rootCollation (isoDate 2024 12 2) twoAccountSheet [twoModelEmail]
         = Inr accountPortfolios
     \<and> map AccountPortfolio.accountName accountPortfolios = [''anne TFSA'', ''Glen RRSP'']
     \<and> sortedBy (\<lambda>a b. rootCollation (AccountPortfolio.accountName a)
                       (AccountPortfolio.accountName b)) accountPortfolios)"
proof -
  have "map_sum id (map AccountPortfolio.accountName)
          (getAccountPortfolios rootCollation (isoDate 2024 12 2) twoAccountSheet [twoModelEmail])
        = Inr [''anne TFSA'', ''Glen RRSP'']"
    by code_simp
  then obtain ps where ps:
    "getAccountPortfolios rootCollation (isoDate 2024 12 2) twoAccountSheet [twoModelEmail] = Inr ps"
    "map AccountPortfolio.accountName ps = [''anne TFSA'', ''Glen RRSP'']"
    by (cases "getAccountPortfolios rootCollation (isoDate 2024 12 2) twoAccountSheet
                 [twoModelEmail]") simp_all
  have s: "sortedBy (\<lambda>a b. rootCollation (AccountPortfolio.accountName a)
                       (AccountPortfolio.accountName b)) ps"
    by (rule accounts_sorted_by_collation [OF rootCollation_total ps(1)])
  have "\<exists>accountPortfolios.
       getAccountPortfolios rootCollation (isoDate 2024 12 2) twoAccountSheet [twoModelEmail]
         = Inr accountPortfolios
     \<and> map AccountPortfolio.accountName accountPortfolios = [''anne TFSA'', ''Glen RRSP'']
     \<and> sortedBy (\<lambda>a b. rootCollation (AccountPortfolio.accountName a)
                       (AccountPortfolio.accountName b)) accountPortfolios"
    using ps s by (intro exI [of _ ps]) simp
  with rootCollation_total show ?thesis by (rule conjI)
qed

text \<open>In the order of code units \<open>Glen RRSP\<close> is before \<open>anne TFSA\<close>, so the names
  returned are not in that order.\<close>

theorem accounts_not_in_code_unit_order:
  "map_sum id (map AccountPortfolio.accountName)
     (getAccountPortfolios rootCollation (isoDate 2024 12 2) twoAccountSheet [twoModelEmail])
     = Inr [''anne TFSA'', ''Glen RRSP'']
 \<and> \<not> sorted [''anne TFSA'', ''Glen RRSP'']"
  by code_simp

subsection \<open>Parsing a number\<close>

lemma parseFloat_negative:
  assumes "parseFloat s = Num n" "n < 0"
  shows "startsWith s ''-''"
proof (rule ccontr)
  assume "\<not> startsWith s ''-''"
  then have f: "(case s of [] \<Rightarrow> False | c # _ \<Rightarrow> c = CHR ''-'') = False"
    by (cases s) (simp_all add: startsWith_def)
  let ?i = "takeWhile isDigit s"
  let ?f = "(case dropWhile isDigit s of [] \<Rightarrow> []
            | c # r2 \<Rightarrow> if c = CHR ''.'' then takeWhile isDigit r2 else [])"
  have m: "(0::rat) \<le> of_nat (digitsValue ?i) + of_nat (digitsValue ?f) / 10 ^ length ?f"
    by simp
  from assms(1) have "n = of_nat (digitsValue ?i) + of_nat (digitsValue ?f) / 10 ^ length ?f"
    unfolding parseFloat_def Let_def f by (simp split: if_splits)
  with m assms(2) show False by linarith
qed

text \<open>
  C4, as the code has it. With the text cleaned of \<open>$\<close>, commas and parentheses, and
  \<open>n\<close> the number read from its digits, dots and minus signs: a text that has no
  opening parenthesis and does not start with a minus sign gives 0 when no number can
  be read and \<open>n\<close> otherwise; a text that has one gives \<open>-|n|\<close> when a number can be
  read; and a result below zero comes only from a text with an opening parenthesis or
  from digits that follow a minus sign.
\<close>

theorem parseNumber_sign_and_fallback:
  "(\<not> isNegativeText v \<and> parseFloat (numericText v) = NaN \<longrightarrow> parseNumber v = Num 0)
 \<and> (\<not> isNegativeText v \<and> parseFloat (numericText v) = Num n \<longrightarrow> parseNumber v = Num n)
 \<and> (isNegativeText v \<and> parseFloat (numericText v) = Num n \<longrightarrow> parseNumber v = Num (- \<bar>n\<bar>))
 \<and> (parseNumber v = Num x \<and> x < 0
      \<longrightarrow> CHR ''('' \<in> set v \<or> startsWith (numericText v) ''-'')
 \<and> set (cleanedText v) \<inter> set ''$,()'' = {}"
proof (intro conjI impI)
  assume "\<not> isNegativeText v \<and> parseFloat (numericText v) = NaN"
  then show "parseNumber v = Num 0" by (simp add: parseNumber_def Let_def)
next
  assume a: "\<not> isNegativeText v \<and> parseFloat (numericText v) = Num n"
  then have "v \<noteq> []"
    by (auto simp: numericText_def cleanedText_def trim_def parseFloat_def)
  with a show "parseNumber v = Num n" by (simp add: parseNumber_def Let_def)
next
  assume a: "isNegativeText v \<and> parseFloat (numericText v) = Num n"
  then have "v \<noteq> []"
    by (auto simp: numericText_def cleanedText_def trim_def parseFloat_def)
  with a show "parseNumber v = Num (- \<bar>n\<bar>)" by (simp add: parseNumber_def Let_def)
next
  assume a: "parseNumber v = Num x \<and> x < 0"
  show "CHR ''('' \<in> set v \<or> startsWith (numericText v) ''-''"
  proof (cases "isNegativeText v")
    case True
    then consider "CHR ''('' \<in> set v" | "startsWith (cleanedText v) ''-''"
      by (auto simp: isNegativeText_def)
    then show ?thesis
    proof cases
      case 1
      then show ?thesis by simp
    next
      case 2
      then obtain r where "cleanedText v = CHR ''-'' # r"
        by (cases "cleanedText v") (simp_all add: startsWith_def)
      then have "startsWith (numericText v) ''-''"
        by (simp add: numericText_def startsWith_def)
      then show ?thesis by simp
    qed
  next
    case False
    with a have "parseFloat (numericText v) = Num x"
      by (auto simp: parseNumber_def Let_def split: if_splits number.splits)
    from parseFloat_negative [OF this] a show ?thesis by simp
  qed
next
  show "set (cleanedText v) \<inter> set ''$,()'' = {}"
  proof -
    have "set (cleanedText v) \<subseteq> set (filter (\<lambda>c. c \<notin> set ''$,()'') v)"
      unfolding cleanedText_def trim_def
      by (metis (no_types, lifting) set_dropWhileD set_rev subsetI)
    then show ?thesis by auto
  qed
qed

text \<open>The cases of the specification: \<open>$(1,234.56)\<close>, the empty text and \<open>N/A\<close>.\<close>

theorem parseNumber_sign_and_fallback_witness:
  "isNegativeText ''$(1,234.56)''
 \<and> parseFloat (numericText ''$(1,234.56)'') = Num (123456 / 100)
 \<and> parseNumber ''$(1,234.56)'' = Num (- (123456 / 100))
 \<and> \<not> isNegativeText ''N/A'' \<and> parseFloat (numericText ''N/A'') = NaN
 \<and> parseNumber ''N/A'' = Num 0
 \<and> parseNumber [] = Num 0
 \<and> parseNumber ''12.5%'' = Num (125 / 10)"
proof -
  have 1: "isNegativeText ''$(1,234.56)''"
    "parseFloat (numericText ''$(1,234.56)'') = Num (123456 / 100)"
    by code_simp+
  have 2: "\<not> isNegativeText ''N/A''" "parseFloat (numericText ''N/A'') = NaN"
    by code_simp+
  have 3: "\<not> isNegativeText []" "parseFloat (numericText []) = NaN"
    by code_simp+
  have 4: "\<not> isNegativeText ''12.5%''" "parseFloat (numericText ''12.5%'') = Num (125 / 10)"
    by code_simp+
  have a: "parseNumber ''$(1,234.56)'' = Num (- \<bar>123456 / 100\<bar>)"
    using parseNumber_sign_and_fallback [of "''$(1,234.56)''" "123456 / 100"] 1 by blast
  have b: "parseNumber ''N/A'' = Num 0"
    using parseNumber_sign_and_fallback [of "''N/A''"] 2 by blast
  have c: "parseNumber [] = Num 0"
    using parseNumber_sign_and_fallback [of "[]"] 3 by blast
  have d: "parseNumber ''12.5%'' = Num (125 / 10)"
    using parseNumber_sign_and_fallback [of "''12.5%''" "125 / 10"] 4 by blast
  show ?thesis using 1 2 a b c d by simp
qed

text \<open>A text in parentheses with no digit gives \<open>NaN\<close>, not 0; and \<open>USD -5\<close>, which
  has no parenthesis and does not start with a minus sign, gives a number below zero.\<close>

theorem parseNumber_NaN_and_inner_minus:
  "parseNumber ''(N/A)'' = NaN
 \<and> parseNumber ''USD -5'' = Num (- 5)
 \<and> CHR ''('' \<notin> set ''USD -5'' \<and> \<not> startsWith (cleanedText ''USD -5'') ''-''"
  by code_simp

end
